theory Spec2Isabelle
  imports Main
begin

section \<open>JavaScript values\<close>

text \<open>
  Strings are lists of code units. An optional property (\<^verbatim>\<open>x?: string\<close>) is a
  \<open>string option\<close>, with \<open>None\<close> for \<^verbatim>\<open>undefined\<close>. A metadata object is a map from
  keys to strings; reading a key that is not there gives \<^verbatim>\<open>undefined\<close>, which is also what an
  optional chain (\<^verbatim>\<open>metadata?.audience\<close>) gives on a missing object.
\<close>

text \<open>Truthiness of an optional string: \<^verbatim>\<open>undefined\<close> and \<^verbatim>\<open>''\<close> are falsy.\<close>

fun truthy :: "string option \<Rightarrow> bool" where
  "truthy None = False"
| "truthy (Some s) = (s \<noteq> [])"

text \<open>\<^verbatim>\<open>a || b\<close> on optional strings.\<close>

definition or_else :: "string option \<Rightarrow> string option \<Rightarrow> string option" where
  "or_else a b = (if truthy a then a else b)"

text \<open>\<^verbatim>\<open>a || 'literal'\<close>, whose result is always a string.\<close>

definition or_str :: "string option \<Rightarrow> string \<Rightarrow> string" where
  "or_str a d = (case a of None \<Rightarrow> d | Some s \<Rightarrow> (if truthy a then s else d))"

text \<open>
  The text that \<^verbatim>\<open>new Date(ms).toISOString()\<close> returns is kept symbolic: \<open>ISOString ms\<close>
  stands for the rendering of the instant \<open>ms\<close> milliseconds after the epoch. Such a text is
  never empty. \<open>Str s\<close> is any other string.
\<close>

datatype jstext = Str string | ISOString nat

fun truthy_text :: "jstext option \<Rightarrow> bool" where
  "truthy_text None = False"
| "truthy_text (Some (Str s)) = (s \<noteq> [])"
| "truthy_text (Some (ISOString ms)) = True"

definition or_text :: "jstext option \<Rightarrow> jstext \<Rightarrow> jstext" where
  "or_text a d = (case a of None \<Rightarrow> d | Some t \<Rightarrow> (if truthy_text a then t else d))"

text \<open>\<^verbatim>\<open>s.split(',')\<close>: the pieces between the separators, empty pieces included.\<close>

fun split_on :: "char \<Rightarrow> string \<Rightarrow> string list" where
  "split_on c [] = [[]]"
| "split_on c (x # xs) =
     (if x = c then [] # split_on c xs
      else (case split_on c xs of
              [] \<Rightarrow> [[x]]
            | y # ys \<Rightarrow> (x # y) # ys))"

text \<open>
  \<^verbatim>\<open>s.trim()\<close> removes white space and line terminators from both ends. Of the characters
  ECMAScript lists, those with a code below 256 are tab, line feed, vertical tab, form feed,
  carriage return, space and no-break space.
\<close>

definition is_space :: "char \<Rightarrow> bool" where
  "is_space c = (c \<in> {CHR 0x09, CHR 0x0A, CHR 0x0B, CHR 0x0C, CHR 0x0D, CHR 0x20, CHR 0xA0})"

definition trim :: "string \<Rightarrow> string" where
  "trim s = rev (dropWhile is_space (rev (dropWhile is_space s)))"

text \<open>
  What a collaborator throws. Every one of them is an \<^verbatim>\<open>Error\<close> instance with a message.
\<close>

datatype error =
    StripeError string
  | DynamoError string
  | SecretsError string
  | JsError string

fun message :: "error \<Rightarrow> string" where
  "message (StripeError m) = m"
| "message (DynamoError m) = m"
| "message (SecretsError m) = m"
| "message (JsError m) = m"

section \<open>The billing provider's objects\<close>

record StripeProduct =
  prod_id :: string
  prod_name :: string
  prod_active :: bool
  prod_metadata :: "string \<rightharpoonup> string"

text \<open>
  \<^verbatim>\<open>price.product\<close> is the product object when the request asked to expand it and the
  product's id otherwise. The code casts it to \<^verbatim>\<open>Stripe.Product\<close> and reads properties; on
  a string those reads give \<^verbatim>\<open>undefined\<close>.
\<close>

datatype product_ref = Expanded StripeProduct | Unexpanded string

fun ref_metadata :: "product_ref \<Rightarrow> string \<Rightarrow> string option" where
  "ref_metadata (Expanded p) k = prod_metadata p k"
| "ref_metadata (Unexpanded s) k = None"

fun ref_id :: "product_ref \<Rightarrow> string option" where
  "ref_id (Expanded p) = Some (prod_id p)"
| "ref_id (Unexpanded s) = None"

fun ref_active :: "product_ref \<Rightarrow> bool" where
  "ref_active (Expanded p) = prod_active p"
| "ref_active (Unexpanded s) = False"

record Price =
  price_id :: string
  price_product :: product_ref
  price_recurring :: bool

record SubscriptionItem =
  item_price :: Price

record Subscription =
  sub_id :: string
  sub_customer :: string
  sub_status :: string
  current_period_end :: nat
  sub_items :: "SubscriptionItem list"
  sub_metadata :: "string \<rightharpoonup> string"

record Customer =
  cust_id :: string
  cust_email :: "string option"

text \<open>
  What the billing provider answers to a request authenticated with one secret key. The
  answers are given by the environment; each request either returns or throws.
\<close>

record SubscriptionCreateParams =
  param_customer :: string
  param_price :: string
  param_metadata :: "string \<rightharpoonup> string"
  param_default_payment_method :: "string option"

record stripe_account =
  customers_list :: "string \<Rightarrow> error + Customer list"
  customers_retrieve :: "string \<Rightarrow> error + Customer"
  subscriptions_list :: "string \<Rightarrow> string \<Rightarrow> error + Subscription list"
  subscriptions_retrieve :: "string \<Rightarrow> error + Subscription"
  subscriptions_create :: "SubscriptionCreateParams \<Rightarrow> error + Subscription"
  prices_retrieve :: "string \<Rightarrow> error + Price"
  products_list :: "error + unit"

text \<open>A client object is determined by the secret key it was constructed with.\<close>

datatype Stripe = Stripe (key_of: string)

section \<open>The tables (types/index.ts)\<close>

record Tenant =
  tenantId :: string
  name :: string
  adminEmail :: string
  stripePublishableKey :: "string option"
  credentialsConfigured :: bool
  credentialsValidatedAt :: "jstext option"
  createdAt :: jstext
  updatedAt :: jstext

record Product =
  p_tenantId :: string
  productId :: string
  productName :: string
  checkoutDomain :: "string option"
  allowedReturnUrls :: "string list"
  subscriptionCallbackUrl :: "string option"

datatype keyType = AdminKey | ProductKey

record ApiKeyRecord =
  apiKeyHash :: string
  k_tenantId :: string
  k_productId :: string
  k_keyType :: keyType

text \<open>
  The result of the billing query has the fields \<open>hasAccess\<close>, \<open>subscriptionId\<close>,
  \<open>planCode\<close>, \<open>status\<close> and \<open>currentPeriodEnd\<close>; a row of the entitlement table has
  the same fields and four more, so the row type extends the result type.
\<close>

record RawDecision =
  hasAccess :: bool
  subscriptionId :: "string option"
  planCode :: "string option"
  status :: "string option"
  currentPeriodEnd :: "jstext option"

record EntitlementCache = RawDecision +
  tenantProductKey :: string
  userId :: string
  userEmail :: "string option"
  ttl :: nat

datatype audit_result = ResultSuccess | ResultError

record WebhookAudit =
  tenantEventKey :: string
  a_tenantId :: string
  eventType :: string
  processedAt :: jstext
  result :: audit_result
  errorMessage :: "string option"
  a_ttl :: nat

text \<open>The secret stored for a tenant in Secrets Manager (services/credentials.ts).\<close>

record StripeCredentials =
  stripe_secret_key :: string
  stripe_webhook_secret :: "string option"

text \<open>An entry of the module-level client cache (services/stripe.ts).\<close>

record CachedClient =
  client :: Stripe
  expiry :: nat

section \<open>The world a request runs in\<close>

text \<open>
  The requests the services send to AWS. Each of them can throw; which ones do is part of
  the world (\<open>aws_fault\<close> gives the message of the error thrown, if any).
\<close>

datatype aws_op =
    GetTenant | UpdateTenant | GetProduct | GetApiKeyByHash
  | GetEntitlementCache | SetEntitlementCache
  | GetWebhookAudit | CreateWebhookAudit
  | GetSecretValue | PutSecretValue | CreateSecret | DeleteSecret

text \<open>
  The effects that the theorems count: a request sent to the billing provider (with the secret
  key of the client that sent it and the method called), a put sent to the entitlement table,
  a put sent to the audit table, and a POST to a product's callback URL. A put is recorded
  when it is sent, whether or not the table accepts it.
\<close>

datatype effect =
    StripeRequest string string
  | PutEntitlement EntitlementCache
  | PutAudit WebhookAudit
  | CallbackPost string

text \<open>
  A verified event: its id and its payload. The payload's shape goes with the event's type
  (\<^verbatim>\<open>Stripe.Event\<close> is a union discriminated by \<^verbatim>\<open>type\<close>): a subscription for the three
  subscription events, an invoice (of which the code reads \<^verbatim>\<open>subscription\<close> only) for
  \<^verbatim>\<open>invoice.payment_failed\<close>, and anything else for the other types.
\<close>

datatype event_data =
    SubscriptionCreated Subscription
  | SubscriptionUpdated Subscription
  | SubscriptionDeleted Subscription
  | InvoicePaymentFailed "string option"
  | OtherEvent string

record StripeEvent =
  event_id :: string
  event_data :: event_data

fun data_type :: "event_data \<Rightarrow> string" where
  "data_type (SubscriptionCreated s) = ''customer.subscription.created''"
| "data_type (SubscriptionUpdated s) = ''customer.subscription.updated''"
| "data_type (SubscriptionDeleted s) = ''customer.subscription.deleted''"
| "data_type (InvoicePaymentFailed i) = ''invoice.payment_failed''"
| "data_type (OtherEvent t) = t"

definition event_type :: "StripeEvent \<Rightarrow> string" where
  "event_type ev = data_type (event_data ev)"

text \<open>
  The world holds the clock, the five DynamoDB tables and the secrets of Secrets Manager as
  maps, the client cache of services/stripe.ts, and the collaborators the code calls:
  \<open>stripe_api k\<close> is what the billing provider answers to a client constructed with the
  key \<open>k\<close>; \<open>constructEvent body signature secret now\<close> is the SDK's signature check,
  which returns the event or throws; \<open>sha256_hex\<close> is the hex digest that
  \<^verbatim>\<open>hashApiKey\<close> computes. \<open>trace\<close> records the effects in the order they happen.
\<close>

record world =
  now_ms :: nat
  tenants :: "string \<rightharpoonup> Tenant"
  products :: "string \<times> string \<rightharpoonup> Product"
  api_keys :: "string \<rightharpoonup> ApiKeyRecord"
  entitlement_cache :: "string \<times> string \<rightharpoonup> EntitlementCache"
  webhook_audit :: "string \<rightharpoonup> WebhookAudit"
  secrets :: "string \<rightharpoonup> StripeCredentials"
  clientCache :: "string \<rightharpoonup> CachedClient"
  stripe_api :: "string \<Rightarrow> stripe_account"
  constructEvent :: "string \<Rightarrow> string \<Rightarrow> string \<Rightarrow> nat \<Rightarrow> error + StripeEvent"
  sha256_hex :: "string \<Rightarrow> string"
  aws_fault :: "aws_op \<Rightarrow> string option"
  trace :: "effect list"

text \<open>
  \<^verbatim>\<open>Date.now()\<close> is \<open>now_ms\<close>. A handler runs at one instant: the clock moves between
  requests, not within one. \<^verbatim>\<open>Math.floor(Date.now() / 1000)\<close> is \<open>now_sec\<close>.
\<close>

definition now_sec :: "world \<Rightarrow> nat" where
  "now_sec w = now_ms w div 1000"

definition emit :: "effect \<Rightarrow> world \<Rightarrow> world" where
  "emit e w = w\<lparr>trace := trace w @ [e]\<rparr>"

section \<open>services/dynamodb.ts\<close>

text \<open>
  A table is a map from its key to the item. A read returns the item or \<^verbatim>\<open>null\<close>; a put
  replaces the item under the key of the item it is given. Both throw when the request
  fails.
\<close>

definition getTenant :: "string \<Rightarrow> world \<Rightarrow> error + Tenant option" where
  "getTenant tid w =
     (case aws_fault w GetTenant of
        Some m \<Rightarrow> Inl (DynamoError m)
      | None \<Rightarrow> Inr (tenants w tid))"

definition getProduct :: "string \<Rightarrow> string \<Rightarrow> world \<Rightarrow> error + Product option" where
  "getProduct tid pid w =
     (case aws_fault w GetProduct of
        Some m \<Rightarrow> Inl (DynamoError m)
      | None \<Rightarrow> Inr (products w (tid, pid)))"

definition getApiKeyByHash :: "string \<Rightarrow> world \<Rightarrow> error + ApiKeyRecord option" where
  "getApiKeyByHash h w =
     (case aws_fault w GetApiKeyByHash of
        Some m \<Rightarrow> Inl (DynamoError m)
      | None \<Rightarrow> Inr (api_keys w h))"

definition getEntitlementCache ::
  "string \<Rightarrow> string \<Rightarrow> string \<Rightarrow> world \<Rightarrow> error + EntitlementCache option" where
  "getEntitlementCache tid pid uid w =
     (let tenantProductKey = tid @ ''#'' @ pid in
      case aws_fault w GetEntitlementCache of
        Some m \<Rightarrow> Inl (DynamoError m)
      | None \<Rightarrow> Inr (entitlement_cache w (tenantProductKey, uid)))"

definition setEntitlementCache :: "EntitlementCache \<Rightarrow> world \<Rightarrow> (error + unit) \<times> world" where
  "setEntitlementCache cache w =
     (let w1 = emit (PutEntitlement cache) w in
      case aws_fault w SetEntitlementCache of
        Some m \<Rightarrow> (Inl (DynamoError m), w1)
      | None \<Rightarrow>
          (Inr (),
           w1\<lparr>entitlement_cache :=
                 (entitlement_cache w1)((tenantProductKey cache, userId cache) \<mapsto> cache)\<rparr>))"

definition getWebhookAudit :: "string \<Rightarrow> string \<Rightarrow> world \<Rightarrow> error + WebhookAudit option" where
  "getWebhookAudit tid eid w =
     (let tenantEventKey = tid @ ''#'' @ eid in
      case aws_fault w GetWebhookAudit of
        Some m \<Rightarrow> Inl (DynamoError m)
      | None \<Rightarrow> Inr (webhook_audit w tenantEventKey))"

text \<open>
  The audit put carries the condition \<^verbatim>\<open>attribute_not_exists(tenantEventKey)\<close>: it throws
  when the table already holds an item under that key.
\<close>

definition createWebhookAudit :: "WebhookAudit \<Rightarrow> world \<Rightarrow> (error + unit) \<times> world" where
  "createWebhookAudit audit w =
     (let w1 = emit (PutAudit audit) w in
      case aws_fault w CreateWebhookAudit of
        Some m \<Rightarrow> (Inl (DynamoError m), w1)
      | None \<Rightarrow>
          (case webhook_audit w (tenantEventKey audit) of
             Some old \<Rightarrow> (Inl (DynamoError ''ConditionalCheckFailedException''), w1)
           | None \<Rightarrow>
               (Inr (),
                w1\<lparr>webhook_audit := (webhook_audit w1)(tenantEventKey audit \<mapsto> audit)\<rparr>)))"

section \<open>services/credentials.ts\<close>

definition SECRET_PREFIX :: string where
  "SECRET_PREFIX = ''paywall/stripe/''"

text \<open>
  A missing secret (\<^verbatim>\<open>ResourceNotFoundException\<close>) gives \<^verbatim>\<open>null\<close>; any other failure of
  the request is thrown.
\<close>

definition getStripeSecretKey :: "string \<Rightarrow> world \<Rightarrow> error + string option" where
  "getStripeSecretKey tid w =
     (let secretName = SECRET_PREFIX @ tid in
      case aws_fault w GetSecretValue of
        Some m \<Rightarrow> Inl (SecretsError m)
      | None \<Rightarrow>
          (case secrets w secretName of
             None \<Rightarrow> Inr None
           | Some parsed \<Rightarrow> Inr (Some (stripe_secret_key parsed))))"

definition getStripeWebhookSecret :: "string \<Rightarrow> world \<Rightarrow> error + string option" where
  "getStripeWebhookSecret tid w =
     (let secretName = SECRET_PREFIX @ tid in
      case aws_fault w GetSecretValue of
        Some m \<Rightarrow> Inl (SecretsError m)
      | None \<Rightarrow>
          (case secrets w secretName of
             None \<Rightarrow> Inr None
           | Some parsed \<Rightarrow> Inr (or_else (stripe_webhook_secret parsed) None)))"

section \<open>services/stripe.ts\<close>

definition CACHE_TTL :: nat where
  "CACHE_TTL = 5 * 60 * 1000"

definition getStripeClient :: "string \<Rightarrow> world \<Rightarrow> (error + Stripe) \<times> world" where
  "getStripeClient tid w =
     (let hit = (case clientCache w tid of
                   None \<Rightarrow> None
                 | Some cached \<Rightarrow> if expiry cached > now_ms w then Some cached else None) in
      case hit of
        Some cached \<Rightarrow> (Inr (client cached), w)
      | None \<Rightarrow>
          (case getStripeSecretKey tid w of
             Inl e \<Rightarrow> (Inl e, w)
           | Inr secretKey \<Rightarrow>
               (case (if truthy secretKey then secretKey else None) of
                  None \<Rightarrow>
                    (Inl (JsError (''No Stripe credentials configured for tenant '' @ tid)), w)
                | Some k \<Rightarrow>
                    (let c = Stripe k in
                     (Inr c,
                      w\<lparr>clientCache :=
                          (clientCache w)(tid \<mapsto> \<lparr>client = c, expiry = now_ms w + CACHE_TTL\<rparr>)\<rparr>)))))"

definition invalidateStripeClient :: "string \<Rightarrow> world \<Rightarrow> world" where
  "invalidateStripeClient tid w = w\<lparr>clientCache := (clientCache w)(tid := None)\<rparr>"

section \<open>services/entitlements.ts\<close>

definition ACTIVE_TTL :: nat where
  "ACTIVE_TTL = 5 * 60"

definition INACTIVE_TTL :: nat where
  "INACTIVE_TTL = 60"

definition no_access :: RawDecision where
  "no_access =
     \<lparr>hasAccess = False, subscriptionId = None, planCode = None, status = None,
      currentPeriodEnd = None\<rparr>"

text \<open>
  The test of the inner loop of \<^verbatim>\<open>queryStripeEntitlement\<close>:
  \<^verbatim>\<open>!audience || audience === productId\<close>.
\<close>

definition audience_matches :: "string option \<Rightarrow> string \<Rightarrow> bool" where
  "audience_matches audience pid = (if truthy audience then audience = Some pid else True)"

text \<open>The inner loop, over the line items of one subscription.\<close>

fun match_items :: "string \<Rightarrow> Subscription \<Rightarrow> SubscriptionItem list \<Rightarrow> RawDecision option" where
  "match_items pid sub [] = None"
| "match_items pid sub (item # items) =
     (let stripeProduct = price_product (item_price item);
          audience = ref_metadata stripeProduct ''audience'' in
      if audience_matches audience pid then
        Some \<lparr>hasAccess = True,
              subscriptionId = Some (sub_id sub),
              planCode = or_else (ref_metadata stripeProduct ''plan_code'') (ref_id stripeProduct),
              status = Some (sub_status sub),
              currentPeriodEnd = Some (ISOString (current_period_end sub * 1000))\<rparr>
      else match_items pid sub items)"

text \<open>The outer loop, over the subscriptions.\<close>

fun match_subs :: "string \<Rightarrow> Subscription list \<Rightarrow> RawDecision option" where
  "match_subs pid [] = None"
| "match_subs pid (sub # subs) =
     (case match_items pid sub (sub_items sub) of
        Some r \<Rightarrow> Some r
      | None \<Rightarrow> match_subs pid subs)"

definition queryStripeEntitlement ::
  "Stripe \<Rightarrow> string \<Rightarrow> string \<Rightarrow> world \<Rightarrow> (error + RawDecision) \<times> world" where
  "queryStripeEntitlement stripe email pid w =
     (let acct = stripe_api w (key_of stripe);
          w1 = emit (StripeRequest (key_of stripe) ''customers.list'') w in
      case customers_list acct email of
        Inl e \<Rightarrow> (Inl e, w1)
      | Inr [] \<Rightarrow> (Inr no_access, w1)
      | Inr (customer # rest) \<Rightarrow>
          (let w2 = emit (StripeRequest (key_of stripe) ''subscriptions.list'') w1 in
           case subscriptions_list acct (cust_id customer) ''active'' of
             Inl e \<Rightarrow> (Inl e, w2)
           | Inr subscriptions \<Rightarrow>
               (let w3 = emit (StripeRequest (key_of stripe) ''subscriptions.list'') w2 in
                case subscriptions_list acct (cust_id customer) ''trialing'' of
                  Inl e \<Rightarrow> (Inl e, w3)
                | Inr trialingSubs \<Rightarrow>
                    (let allSubs = subscriptions @ trialingSubs in
                     case match_subs pid allSubs of
                       Some r \<Rightarrow> (Inr r, w3)
                     | None \<Rightarrow> (Inr no_access, w3)))))"

text \<open>What \<^verbatim>\<open>checkEntitlement\<close> returns.\<close>

record SubscriptionInfo =
  info_status :: string
  info_planCode :: string
  info_currentPeriodEnd :: jstext

record Decision =
  d_hasAccess :: bool
  d_subscription :: "SubscriptionInfo option"

text \<open>
  The object both return statements of \<^verbatim>\<open>checkEntitlement\<close> build, from the cached row on
  the fast path and from the query's result on the slow path.
\<close>

definition decision_of :: "'a RawDecision_scheme \<Rightarrow> Decision" where
  "decision_of r =
     \<lparr>d_hasAccess = hasAccess r,
      d_subscription =
        (if hasAccess r then
           Some \<lparr>info_status = or_str (status r) ''active'',
                 info_planCode = or_str (planCode r) [],
                 info_currentPeriodEnd = or_text (currentPeriodEnd r) (Str [])\<rparr>
         else None)\<rparr>"

definition checkEntitlement ::
  "string \<Rightarrow> string \<Rightarrow> string \<Rightarrow> string \<Rightarrow> world \<Rightarrow> (error + Decision) \<times> world" where
  "checkEntitlement tid pid uid email w =
     (case getEntitlementCache tid pid uid w of
        Inl e \<Rightarrow> (Inl e, w)
      | Inr cached \<Rightarrow>
          (let hit = (case cached of
                        None \<Rightarrow> None
                      | Some c \<Rightarrow> if ttl c > now_sec w then Some c else None) in
           case hit of
             Some c \<Rightarrow> (Inr (decision_of c), w)
           | None \<Rightarrow>
               (case getStripeClient tid w of
                  (Inl e, w1) \<Rightarrow> (Inl e, w1)
                | (Inr stripe, w1) \<Rightarrow>
                    (case queryStripeEntitlement stripe email pid w1 of
                       (Inl e, w2) \<Rightarrow> (Inl e, w2)
                     | (Inr r, w2) \<Rightarrow>
                         (let tenantProductKey = tid @ ''#'' @ pid;
                              ttlSeconds = (if hasAccess r then ACTIVE_TTL else INACTIVE_TTL);
                              cacheEntry =
                                \<lparr>hasAccess = hasAccess r,
                                 subscriptionId = subscriptionId r,
                                 planCode = planCode r,
                                 status = status r,
                                 currentPeriodEnd = currentPeriodEnd r,
                                 tenantProductKey = tenantProductKey,
                                 userId = uid,
                                 userEmail = Some email,
                                 ttl = now_sec w2 + ttlSeconds\<rparr> in
                          case setEntitlementCache cacheEntry w2 of
                            (Inl e, w3) \<Rightarrow> (Inl e, w3)
                          | (Inr u, w3) \<Rightarrow> (Inr (decision_of r), w3))))))"

section \<open>handlers/plans.ts\<close>

text \<open>
  The callback that \<^verbatim>\<open>handler\<close> filters the tenant's prices with. An audience is split at
  the commas and each piece trimmed; the price is kept when the product id is one of the
  pieces.
\<close>

definition plans_filter :: "string \<Rightarrow> Price \<Rightarrow> bool" where
  "plans_filter pid price =
     (if \<not> price_recurring price then False
      else
        (let stripeProduct = price_product price in
         if \<not> ref_active stripeProduct then False
         else
           (case ref_metadata stripeProduct ''audience'' of
              None \<Rightarrow> True
            | Some a \<Rightarrow>
                (if a \<noteq> [] then
                   (let audiences = map trim (split_on CHR '','' a) in
                    if pid \<notin> set audiences then False else True)
                 else True))))"

section \<open>utils/response.ts\<close>

text \<open>
  A response body is kept as the JSON value that \<^verbatim>\<open>JSON.stringify\<close> is applied to.
  \<open>JDate ms\<close> is the string \<^verbatim>\<open>new Date(ms).toISOString()\<close>; \<open>JUndefined\<close> is a property
  whose value is \<^verbatim>\<open>undefined\<close>, which the serialisation leaves out.
\<close>

datatype json =
    JUndefined
  | JNull
  | JBool bool
  | JNumber int
  | JString string
  | JDate nat
  | JArray "json list"
  | JObject "(string \<times> json) list"

fun json_of_opt :: "string option \<Rightarrow> json" where
  "json_of_opt None = JUndefined"
| "json_of_opt (Some s) = JString s"

fun json_of_text :: "jstext \<Rightarrow> json" where
  "json_of_text (Str s) = JString s"
| "json_of_text (ISOString ms) = JDate ms"

record APIGatewayProxyResult =
  statusCode :: nat
  headers :: "(string \<times> string) list"
  body :: json

definition corsHeaders :: "(string \<times> string) list" where
  "corsHeaders =
     [(''Content-Type'', ''application/json''),
      (''Access-Control-Allow-Origin'', ''*''),
      (''Access-Control-Allow-Headers'', ''Content-Type, Authorization, X-Api-Key''),
      (''Access-Control-Allow-Methods'', ''GET, POST, PUT, DELETE, OPTIONS'')]"

definition json :: "nat \<Rightarrow> json \<Rightarrow> APIGatewayProxyResult" where
  "json code b = \<lparr>statusCode = code, headers = corsHeaders, body = b\<rparr>"

definition success :: "json \<Rightarrow> APIGatewayProxyResult" where
  "success data = json 200 (JObject [(''success'', JBool True), (''data'', data)])"

definition error :: "string \<Rightarrow> nat \<Rightarrow> APIGatewayProxyResult" where
  "error msg code = json code (JObject [(''success'', JBool False), (''error'', JString msg)])"

section \<open>handlers/subscriptions.ts\<close>

text \<open>
  The request: \<^verbatim>\<open>JSON.parse(event.body || '{}')\<close> either throws (\<open>Unparsable\<close>) or gives
  the object the handler destructures. The fields it reads are strings when present.
\<close>

datatype 'a parsed = Unparsable | Parsed 'a

record FinalizeBody =
  tenant_id :: "string option"
  customer_id :: "string option"
  price_id_field :: "string option"
  payment_method :: "string option"
  product_id :: "string option"
  user_id :: "string option"
  return_url :: "string option"

text \<open>
  The synchronous write and what follows it (lines 73 to 135 of the handler), once the
  subscription has been created.
\<close>

definition finalize_write ::
  "Stripe \<Rightarrow> FinalizeBody \<Rightarrow> string \<Rightarrow> string \<Rightarrow> string \<Rightarrow> Product \<Rightarrow> string option \<Rightarrow>
   Subscription \<Rightarrow> world \<Rightarrow> (error + APIGatewayProxyResult) \<times> world" where
  "finalize_write stripe b tid cid pid product plan subscription w =
     (let w1 = emit (StripeRequest (key_of stripe) ''customers.retrieve'') w in
      case customers_retrieve (stripe_api w (key_of stripe)) cid of
        Inl e \<Rightarrow> (Inl e, w1)
      | Inr customer \<Rightarrow>
          (let customerEmail = or_str (cust_email customer) [];
               uid = or_str (user_id b) customerEmail;
               tenantProductKey = tid @ ''#'' @ pid;
               cacheEntry =
                 \<lparr>hasAccess = True,
                  subscriptionId = Some (sub_id subscription),
                  planCode = plan,
                  status = Some (sub_status subscription),
                  currentPeriodEnd = Some (ISOString (current_period_end subscription * 1000)),
                  tenantProductKey = tenantProductKey,
                  userId = uid,
                  userEmail = Some customerEmail,
                  ttl = now_sec w1 + 5 * 60\<rparr> in
           case setEntitlementCache cacheEntry w1 of
             (Inl e, w2) \<Rightarrow> (Inl e, w2)
           | (Inr u, w2) \<Rightarrow>
               (let w3 = (case subscriptionCallbackUrl product of
                            None \<Rightarrow> w2
                          | Some url \<Rightarrow> if url \<noteq> [] then emit (CallbackPost url) w2 else w2);
                    redirectUrl0 = or_str (return_url b) [];
                    redirectUrl =
                      (if redirectUrl0 = [] then
                         (case allowedReturnUrls product of
                            [] \<Rightarrow> redirectUrl0
                          | url # urls \<Rightarrow> url)
                       else redirectUrl0) in
                (Inr (success (JObject
                        [(''subscription_id'', JString (sub_id subscription)),
                         (''status'', JString (sub_status subscription)),
                         (''plan_code'', json_of_opt plan),
                         (''redirect_url'', JString redirectUrl)])),
                 w3))))"

text \<open>The body of the handler's \<^verbatim>\<open>try\<close> block; \<open>Inl\<close> is what it throws.\<close>

definition finalize_try ::
  "FinalizeBody parsed \<Rightarrow> world \<Rightarrow> (error + APIGatewayProxyResult) \<times> world" where
  "finalize_try ev w =
     (case ev of
        Unparsable \<Rightarrow> (Inl (JsError ''SyntaxError''), w)
      | Parsed b \<Rightarrow>
     (case (if truthy (tenant_id b) then tenant_id b else None) of
        None \<Rightarrow> (Inr (error ''tenant_id is required'' 400), w)
      | Some tid \<Rightarrow>
     (case (if truthy (customer_id b) then customer_id b else None) of
        None \<Rightarrow> (Inr (error ''customer_id is required'' 400), w)
      | Some cid \<Rightarrow>
     (case (if truthy (price_id_field b) then price_id_field b else None) of
        None \<Rightarrow> (Inr (error ''price_id is required'' 400), w)
      | Some prid \<Rightarrow>
     (case (if truthy (product_id b) then product_id b else None) of
        None \<Rightarrow> (Inr (error ''product_id is required'' 400), w)
      | Some pid \<Rightarrow>
     (case getTenant tid w of
        Inl e \<Rightarrow> (Inl e, w)
      | Inr tenant \<Rightarrow>
     (case (case tenant of
              None \<Rightarrow> None
            | Some t \<Rightarrow> if credentialsConfigured t then Some t else None) of
        None \<Rightarrow> (Inr (error ''Tenant not configured'' 400), w)
      | Some t \<Rightarrow>
     (case getProduct tid pid w of
        Inl e \<Rightarrow> (Inl e, w)
      | Inr None \<Rightarrow> (Inr (error ''Product not found'' 404), w)
      | Inr (Some product) \<Rightarrow>
     (case getStripeClient tid w of
        (Inl e, w1) \<Rightarrow> (Inl e, w1)
      | (Inr stripe, w1) \<Rightarrow>
     (let acct = stripe_api w1 (key_of stripe);
          w2 = emit (StripeRequest (key_of stripe) ''prices.retrieve'') w1 in
      case prices_retrieve acct prid of
        Inl e \<Rightarrow> (Inl e, w2)
      | Inr price \<Rightarrow>
     (let stripeProduct = price_product price;
          planCode = or_else (ref_metadata stripeProduct ''plan_code'') (ref_id stripeProduct);
          subscriptionParams =
            \<lparr>param_customer = cid,
             param_price = prid,
             param_metadata =
               [''paywall_tenant'' \<mapsto> tid, ''paywall_product'' \<mapsto> pid](''plan_code'' := planCode),
             param_default_payment_method =
               (if truthy (payment_method b) then payment_method b else None)\<rparr>;
          w3 = emit (StripeRequest (key_of stripe) ''subscriptions.create'') w2 in
      case subscriptions_create acct subscriptionParams of
        Inl e \<Rightarrow> (Inl e, w3)
      | Inr subscription \<Rightarrow>
          finalize_write stripe b tid cid pid product planCode subscription w3)))))))))))"

definition finalizeHandler :: "FinalizeBody parsed \<Rightarrow> world \<Rightarrow> APIGatewayProxyResult \<times> world" where
  "finalizeHandler ev w =
     (case finalize_try ev w of
        (Inr r, w1) \<Rightarrow> (r, w1)
      | (Inl err, w1) \<Rightarrow> (error ''Failed to finalize subscription'' 500, w1))"

section \<open>handlers/webhooks.ts\<close>

definition AUDIT_TTL :: nat where
  "AUDIT_TTL = 30 * 24 * 60 * 60"

text \<open>
  The request: its path parameters, its headers and its body, which is the raw text for the
  webhook handler and the parsed object for the handlers that call \<^verbatim>\<open>JSON.parse\<close>.
\<close>

record 'b APIGatewayProxyEvent =
  pathParameters :: "string \<rightharpoonup> string"
  req_headers :: "string \<rightharpoonup> string"
  req_body :: 'b

text \<open>
  \<^verbatim>\<open>subscription.items?.data[0]\<close> and, of a line item, \<^verbatim>\<open>item?.price.product\<close>; a product
  reference is truthy unless it is the empty string.
\<close>

fun first_item :: "Subscription \<Rightarrow> SubscriptionItem option" where
  "first_item sub = (case sub_items sub of [] \<Rightarrow> None | item # items \<Rightarrow> Some item)"

fun item_product :: "SubscriptionItem option \<Rightarrow> product_ref option" where
  "item_product None = None"
| "item_product (Some item) = Some (price_product (item_price item))"

fun truthy_ref :: "product_ref option \<Rightarrow> bool" where
  "truthy_ref None = False"
| "truthy_ref (Some (Expanded p)) = True"
| "truthy_ref (Some (Unexpanded s)) = (s \<noteq> [])"

fun opt_metadata :: "product_ref option \<Rightarrow> string \<Rightarrow> string option" where
  "opt_metadata None k = None"
| "opt_metadata (Some r) k = ref_metadata r k"

fun opt_id :: "product_ref option \<Rightarrow> string option" where
  "opt_id None = None"
| "opt_id (Some r) = ref_id r"

text \<open>
  The subscription whose first line item the two writers read: the one given when that item
  has a product, the one fetched again from the provider otherwise.
\<close>

definition fetch_fullSub :: "Stripe \<Rightarrow> Subscription \<Rightarrow> world \<Rightarrow> (error + Subscription) \<times> world" where
  "fetch_fullSub stripe subscription w =
     (if truthy_ref (item_product (first_item subscription)) then (Inr subscription, w)
      else
        (let w1 = emit (StripeRequest (key_of stripe) ''subscriptions.retrieve'') w in
         case subscriptions_retrieve (stripe_api w (key_of stripe)) (sub_id subscription) of
           Inl e \<Rightarrow> (Inl e, w1)
         | Inr s \<Rightarrow> (Inr s, w1)))"

definition updateEntitlementFromSubscription ::
  "string \<Rightarrow> Stripe \<Rightarrow> Subscription \<Rightarrow> world \<Rightarrow> (error + unit) \<times> world" where
  "updateEntitlementFromSubscription tid stripe subscription w =
     (let w1 = emit (StripeRequest (key_of stripe) ''customers.retrieve'') w in
      case customers_retrieve (stripe_api w (key_of stripe)) (sub_customer subscription) of
        Inl e \<Rightarrow> (Inl e, w1)
      | Inr customer \<Rightarrow>
     (case (if truthy (cust_email customer) then cust_email customer else None) of
        None \<Rightarrow> (Inr (), w1)
      | Some email \<Rightarrow>
     (case fetch_fullSub stripe subscription w1 of
        (Inl e, w2) \<Rightarrow> (Inl e, w2)
      | (Inr fullSub, w2) \<Rightarrow>
     (let stripeProduct = item_product (first_item fullSub);
          plan = or_str (or_else (opt_metadata stripeProduct ''plan_code'') (opt_id stripeProduct)) [];
          pid = or_str (or_else (sub_metadata subscription ''paywall_product'')
                                (opt_metadata stripeProduct ''audience'')) ''*'';
          access = (sub_status subscription = ''active'' \<or> sub_status subscription = ''trialing'');
          key = tid @ ''#'' @ pid;
          uid = or_str (sub_metadata subscription ''user_id'') email;
          cache =
            \<lparr>hasAccess = access,
             subscriptionId = Some (sub_id subscription),
             planCode = Some plan,
             status = Some (sub_status subscription),
             currentPeriodEnd = Some (ISOString (current_period_end subscription * 1000)),
             tenantProductKey = key,
             userId = uid,
             userEmail = Some email,
             ttl = now_sec w2 + 5 * 60\<rparr> in
      setEntitlementCache cache w2))))"

definition revokeEntitlementFromSubscription ::
  "string \<Rightarrow> Stripe \<Rightarrow> Subscription \<Rightarrow> world \<Rightarrow> (error + unit) \<times> world" where
  "revokeEntitlementFromSubscription tid stripe subscription w =
     (let w1 = emit (StripeRequest (key_of stripe) ''customers.retrieve'') w in
      case customers_retrieve (stripe_api w (key_of stripe)) (sub_customer subscription) of
        Inl e \<Rightarrow> (Inl e, w1)
      | Inr customer \<Rightarrow>
     (case (if truthy (cust_email customer) then cust_email customer else None) of
        None \<Rightarrow> (Inr (), w1)
      | Some email \<Rightarrow>
     (case fetch_fullSub stripe subscription w1 of
        (Inl e, w2) \<Rightarrow> (Inl e, w2)
      | (Inr fullSub, w2) \<Rightarrow>
     (let stripeProduct = item_product (first_item fullSub);
          pid = or_str (or_else (sub_metadata subscription ''paywall_product'')
                                (opt_metadata stripeProduct ''audience'')) ''*'';
          key = tid @ ''#'' @ pid;
          uid = or_str (sub_metadata subscription ''user_id'') email;
          cache =
            \<lparr>hasAccess = False,
             subscriptionId = Some (sub_id subscription),
             planCode = None,
             status = Some (sub_status subscription),
             currentPeriodEnd = None,
             tenantProductKey = key,
             userId = uid,
             userEmail = Some email,
             ttl = now_sec w2 + 60\<rparr> in
      setEntitlementCache cache w2))))"

definition processWebhookEvent ::
  "string \<Rightarrow> Stripe \<Rightarrow> StripeEvent \<Rightarrow> world \<Rightarrow> (error + unit) \<times> world" where
  "processWebhookEvent tid stripe ev w =
     (case event_data ev of
        SubscriptionCreated subscription \<Rightarrow>
          updateEntitlementFromSubscription tid stripe subscription w
      | SubscriptionUpdated subscription \<Rightarrow>
          updateEntitlementFromSubscription tid stripe subscription w
      | SubscriptionDeleted subscription \<Rightarrow>
          revokeEntitlementFromSubscription tid stripe subscription w
      | InvoicePaymentFailed invoice_subscription \<Rightarrow>
          (case (if truthy invoice_subscription then invoice_subscription else None) of
             None \<Rightarrow> (Inr (), w)
           | Some sid \<Rightarrow>
               (let w1 = emit (StripeRequest (key_of stripe) ''subscriptions.retrieve'') w in
                case subscriptions_retrieve (stripe_api w (key_of stripe)) sid of
                  Inl e \<Rightarrow> (Inl e, w1)
                | Inr subscription \<Rightarrow>
                    updateEntitlementFromSubscription tid stripe subscription w1))
      | OtherEvent t \<Rightarrow> (Inr (), w))"

text \<open>
  The handler from the idempotency check on (lines 54 to 86), for an event that has passed
  the signature check.
\<close>

definition handle_verified ::
  "string \<Rightarrow> Stripe \<Rightarrow> StripeEvent \<Rightarrow> world \<Rightarrow> (error + APIGatewayProxyResult) \<times> world" where
  "handle_verified tid stripe stripeEvent w =
     (case getWebhookAudit tid (event_id stripeEvent) w of
        Inl e \<Rightarrow> (Inl e, w)
      | Inr (Some existingAudit) \<Rightarrow>
          (Inr (json 200 (JObject [(''received'', JBool True), (''duplicate'', JBool True)])), w)
      | Inr None \<Rightarrow>
          (let (outcome, w1) = processWebhookEvent tid stripe stripeEvent w;
               audit =
                 \<lparr>tenantEventKey = tid @ ''#'' @ event_id stripeEvent,
                  a_tenantId = tid,
                  eventType = event_type stripeEvent,
                  processedAt = ISOString (now_ms w1),
                  result = (case outcome of Inl err \<Rightarrow> ResultError | Inr u \<Rightarrow> ResultSuccess),
                  errorMessage = (case outcome of Inl err \<Rightarrow> Some (message err) | Inr u \<Rightarrow> None),
                  a_ttl = now_sec w1 + AUDIT_TTL\<rparr> in
           case createWebhookAudit audit w1 of
             (Inl e, w2) \<Rightarrow> (Inl e, w2)
           | (Inr u, w2) \<Rightarrow> (Inr (json 200 (JObject [(''received'', JBool True)])), w2)))"

text \<open>
  The handler up to the signature check (lines 26 to 52). \<open>Inr (Inl r)\<close> is an early
  return of the response \<open>r\<close>, \<open>Inr (Inr (stripe, stripeEvent))\<close> is a verified event with
  the tenant's client, \<open>Inl\<close> is what these lines throw.
\<close>

definition webhook_verify ::
  "string \<Rightarrow> string option APIGatewayProxyEvent \<Rightarrow> world \<Rightarrow>
   (error + (APIGatewayProxyResult + Stripe \<times> StripeEvent)) \<times> world" where
  "webhook_verify tid ev w =
     (case getStripeWebhookSecret tid w of
        Inl e \<Rightarrow> (Inl e, w)
      | Inr secret \<Rightarrow>
     (case (if truthy secret then secret else None) of
        None \<Rightarrow>
          (Inr (Inl (json 400
                  (JObject [(''error'', JString ''Webhook not configured for this tenant'')]))), w)
      | Some webhookSecret \<Rightarrow>
     (case (let signature = or_else (req_headers ev ''stripe-signature'')
                                    (req_headers ev ''Stripe-Signature'') in
            if truthy signature then signature else None) of
        None \<Rightarrow>
          (Inr (Inl (json 400 (JObject [(''error'', JString ''Missing stripe-signature header'')]))), w)
      | Some signature \<Rightarrow>
     (case getStripeClient tid w of
        (Inl e, w1) \<Rightarrow> (Inl e, w1)
      | (Inr stripe, w1) \<Rightarrow>
     (case constructEvent w1 (or_str (req_body ev) []) signature webhookSecret (now_ms w1) of
        Inl err \<Rightarrow> (Inr (Inl (json 400 (JObject [(''error'', JString ''Invalid signature'')]))), w1)
      | Inr stripeEvent \<Rightarrow> (Inr (Inr (stripe, stripeEvent)), w1))))))"

text \<open>The body of the handler's outer \<^verbatim>\<open>try\<close> block; \<open>Inl\<close> is what it throws.\<close>

definition webhook_try ::
  "string \<Rightarrow> string option APIGatewayProxyEvent \<Rightarrow> world \<Rightarrow>
   (error + APIGatewayProxyResult) \<times> world" where
  "webhook_try tid ev w =
     (case webhook_verify tid ev w of
        (Inl e, w1) \<Rightarrow> (Inl e, w1)
      | (Inr (Inl r), w1) \<Rightarrow> (Inr r, w1)
      | (Inr (Inr (stripe, stripeEvent)), w1) \<Rightarrow> handle_verified tid stripe stripeEvent w1)"

definition handler :: "string option APIGatewayProxyEvent \<Rightarrow> world \<Rightarrow> APIGatewayProxyResult \<times> world" where
  "handler ev w =
     (case (let t = pathParameters ev ''tenantId'' in if truthy t then t else None) of
        None \<Rightarrow> (json 400 (JObject [(''error'', JString ''tenantId is required'')]), w)
      | Some tid \<Rightarrow>
          (case webhook_try tid ev w of
             (Inr r, w1) \<Rightarrow> (r, w1)
           | (Inl err, w1) \<Rightarrow> (json 500 (JObject [(''error'', JString ''Internal server error'')]), w1)))"

section \<open>middleware/auth.ts\<close>

record ResolvedApiKey =
  r_tenantId :: string
  r_productId :: string
  r_keyType :: keyType

definition resolveApiKey :: "'b APIGatewayProxyEvent \<Rightarrow> world \<Rightarrow> error + ResolvedApiKey option" where
  "resolveApiKey ev w =
     (let rawKey = or_else (req_headers ev ''x-api-key'')
                     (or_else (req_headers ev ''X-Api-Key'') (req_headers ev ''X-API-KEY'')) in
      case (if truthy rawKey then rawKey else None) of
        None \<Rightarrow> Inr None
      | Some k \<Rightarrow>
          (case getApiKeyByHash (sha256_hex w k) w of
             Inl e \<Rightarrow> Inl e
           | Inr None \<Rightarrow> Inr None
           | Inr (Some rec) \<Rightarrow>
               Inr (Some \<lparr>r_tenantId = k_tenantId rec,
                          r_productId = k_productId rec,
                          r_keyType = k_keyType rec\<rparr>)))"

definition requireAdminKey :: "'b APIGatewayProxyEvent \<Rightarrow> world \<Rightarrow> error + ResolvedApiKey option" where
  "requireAdminKey ev w =
     (case resolveApiKey ev w of
        Inl e \<Rightarrow> Inl e
      | Inr None \<Rightarrow> Inr None
      | Inr (Some resolved) \<Rightarrow>
          (if r_keyType resolved \<noteq> AdminKey then Inr None else Inr (Some resolved)))"

section \<open>services/credentials.ts and services/dynamodb.ts: the writes\<close>

text \<open>\<^verbatim>\<open>message.includes(p)\<close>: \<open>p\<close> occurs somewhere in the message.\<close>

fun str_includes :: "string \<Rightarrow> string \<Rightarrow> bool" where
  "str_includes [] p = (p = [])"
| "str_includes (x # xs) p =
     (if take (length p) (x # xs) = p then True else str_includes xs p)"

record Validation =
  valid :: bool
  validation_error :: "string option"

definition validateStripeKey :: "string \<Rightarrow> world \<Rightarrow> Validation \<times> world" where
  "validateStripeKey key w =
     (let w1 = emit (StripeRequest key ''products.list'') w in
      case products_list (stripe_api w key) of
        Inr u \<Rightarrow> (\<lparr>valid = True, validation_error = None\<rparr>, w1)
      | Inl err \<Rightarrow>
          (if str_includes (message err) ''Invalid API Key''
           then (\<lparr>valid = False, validation_error = Some ''Invalid Stripe API key''\<rparr>, w1)
           else (\<lparr>valid = False, validation_error = Some (message err)\<rparr>, w1)))"

text \<open>
  \<^verbatim>\<open>PutSecretValue\<close> answers \<^verbatim>\<open>ResourceNotFoundException\<close> when the tenant has no secret
  yet; the secret is then created.
\<close>

definition storeCredentials :: "string \<Rightarrow> StripeCredentials \<Rightarrow> world \<Rightarrow> (error + unit) \<times> world" where
  "storeCredentials tid credentials w =
     (let secretName = SECRET_PREFIX @ tid in
      case aws_fault w PutSecretValue of
        Some m \<Rightarrow> (Inl (SecretsError m), w)
      | None \<Rightarrow>
          (case secrets w secretName of
             Some old \<Rightarrow> (Inr (), w\<lparr>secrets := (secrets w)(secretName \<mapsto> credentials)\<rparr>)
           | None \<Rightarrow>
               (case aws_fault w CreateSecret of
                  Some m \<Rightarrow> (Inl (SecretsError m), w)
                | None \<Rightarrow> (Inr (), w\<lparr>secrets := (secrets w)(secretName \<mapsto> credentials)\<rparr>))))"

definition deleteCredentials :: "string \<Rightarrow> world \<Rightarrow> (error + unit) \<times> world" where
  "deleteCredentials tid w =
     (let secretName = SECRET_PREFIX @ tid in
      case aws_fault w DeleteSecret of
        Some m \<Rightarrow> (Inl (SecretsError m), w)
      | None \<Rightarrow> (Inr (), w\<lparr>secrets := (secrets w)(secretName := None)\<rparr>))"

text \<open>
  The updates the credentials handlers pass to \<^verbatim>\<open>updateTenant\<close>. A property whose value is
  \<^verbatim>\<open>undefined\<close> (\<open>None\<close>) is left out of the update expression, so the stored attribute
  keeps its value. The handlers update a tenant they have just read; for a tenant that is
  not in the table the model leaves the table as it is.
\<close>

record TenantUpdates =
  u_stripePublishableKey :: "string option"
  u_credentialsConfigured :: "bool option"
  u_credentialsValidatedAt :: "jstext option"
  u_updatedAt :: "jstext option"

definition updateTenant :: "string \<Rightarrow> TenantUpdates \<Rightarrow> world \<Rightarrow> (error + Tenant option) \<times> world" where
  "updateTenant tid updates w =
     (if u_stripePublishableKey updates = None \<and> u_credentialsConfigured updates = None
         \<and> u_credentialsValidatedAt updates = None \<and> u_updatedAt updates = None
      then (getTenant tid w, w)
      else
        (case aws_fault w UpdateTenant of
           Some m \<Rightarrow> (Inl (DynamoError m), w)
         | None \<Rightarrow>
             (case tenants w tid of
                None \<Rightarrow> (Inr None, w)
              | Some t \<Rightarrow>
                  (let t' = t\<lparr>stripePublishableKey :=
                               (case u_stripePublishableKey updates of
                                  None \<Rightarrow> stripePublishableKey t | Some v \<Rightarrow> Some v),
                             credentialsConfigured :=
                               (case u_credentialsConfigured updates of
                                  None \<Rightarrow> credentialsConfigured t | Some v \<Rightarrow> v),
                             credentialsValidatedAt :=
                               (case u_credentialsValidatedAt updates of
                                  None \<Rightarrow> credentialsValidatedAt t | Some v \<Rightarrow> Some v),
                             updatedAt :=
                               (case u_updatedAt updates of
                                  None \<Rightarrow> updatedAt t | Some v \<Rightarrow> v)\<rparr> in
                   (Inr (Some t'), w\<lparr>tenants := (tenants w)(tid \<mapsto> t')\<rparr>)))))"

section \<open>handlers/credentials.ts\<close>

text \<open>
  The parsed body of a request to store credentials; a property that is absent is
  \<open>JUndefined\<close>.
\<close>

record CredentialsBody =
  b_stripe_secret_key :: json
  b_stripe_publishable_key :: json
  b_stripe_webhook_secret :: json

fun js_truthy :: "json \<Rightarrow> bool" where
  "js_truthy JUndefined = False"
| "js_truthy JNull = False"
| "js_truthy (JBool b) = b"
| "js_truthy (JNumber n) = (n \<noteq> 0)"
| "js_truthy (JString s) = (s \<noteq> [])"
| "js_truthy (JDate ms) = True"
| "js_truthy (JArray xs) = True"
| "js_truthy (JObject kvs) = True"

text \<open>The value when it is truthy and \<^verbatim>\<open>typeof\<close> gives \<^verbatim>\<open>'string'\<close>.\<close>

fun truthy_string :: "json \<Rightarrow> string option" where
  "truthy_string (JString s) = (if s \<noteq> [] then Some s else None)"
| "truthy_string j = None"

definition startsWith :: "string \<Rightarrow> string \<Rightarrow> bool" where
  "startsWith s p = (take (length p) s = p)"

text \<open>The message of the 401 answer; its dash is U+2014, written here as its UTF-8 bytes.\<close>

definition unauthorized_admin :: string where
  "unauthorized_admin =
     ''Unauthorized '' @ [CHR 0xE2, CHR 0x80, CHR 0x94] @ '' admin API key required''"

text \<open>
  The checks both handlers start with: the admin key, the path parameter, the key's tenant
  and the tenant's record. \<open>Inr (Inl r)\<close> is an early return of the response \<open>r\<close>,
  \<open>Inr (Inr tid)\<close> lets the handler go on, \<open>Inl\<close> is what the checks throw.
\<close>

definition credentials_guard ::
  "'b APIGatewayProxyEvent \<Rightarrow> world \<Rightarrow> error + (APIGatewayProxyResult + string)" where
  "credentials_guard ev w =
     (case requireAdminKey ev w of
        Inl e \<Rightarrow> Inl e
      | Inr None \<Rightarrow> Inr (Inl (error unauthorized_admin 401))
      | Inr (Some auth) \<Rightarrow>
     (case (let t = pathParameters ev ''tenantId'' in if truthy t then t else None) of
        None \<Rightarrow> Inr (Inl (error ''tenantId is required'' 400))
      | Some tid \<Rightarrow>
          (if r_tenantId auth \<noteq> tid then Inr (Inl (error ''Access denied'' 403))
           else
             (case getTenant tid w of
                Inl e \<Rightarrow> Inl e
              | Inr None \<Rightarrow> Inr (Inl (error ''Tenant not found'' 404))
              | Inr (Some tenant) \<Rightarrow> Inr (Inr tid)))))"

text \<open>The rest of \<^verbatim>\<open>setHandler\<close>'s \<^verbatim>\<open>try\<close> block, from the validation of the key on.\<close>

definition set_store ::
  "string \<Rightarrow> string \<Rightarrow> string \<Rightarrow> string option \<Rightarrow> world \<Rightarrow>
   (error + APIGatewayProxyResult) \<times> world" where
  "set_store tid sk pk whsec w =
     (case validateStripeKey sk w of
        (validation, w1) \<Rightarrow>
     (if \<not> valid validation then
        (Inr (error (''Stripe key validation failed: ''
                      @ (case validation_error validation of
                           None \<Rightarrow> ''undefined'' | Some m \<Rightarrow> m)) 400), w1)
      else
     (case storeCredentials tid
             \<lparr>stripe_secret_key = sk, stripe_webhook_secret = whsec\<rparr> w1 of
        (Inl e, w2) \<Rightarrow> (Inl e, w2)
      | (Inr u, w2) \<Rightarrow>
     (let now = ISOString (now_ms w2) in
      case updateTenant tid
             \<lparr>u_stripePublishableKey = Some pk,
              u_credentialsConfigured = Some True,
              u_credentialsValidatedAt = Some now,
              u_updatedAt = Some now\<rparr> w2 of
        (Inl e, w3) \<Rightarrow> (Inl e, w3)
      | (Inr t, w3) \<Rightarrow>
          (Inr (success (JObject
                  [(''status'', JString ''validated''),
                   (''publishable_key'', JString pk),
                   (''validated_at'', json_of_text now)])), w3)))))"

definition set_try ::
  "CredentialsBody parsed APIGatewayProxyEvent \<Rightarrow> world \<Rightarrow>
   (error + APIGatewayProxyResult) \<times> world" where
  "set_try ev w =
     (case credentials_guard ev w of
        Inl e \<Rightarrow> (Inl e, w)
      | Inr (Inl r) \<Rightarrow> (Inr r, w)
      | Inr (Inr tid) \<Rightarrow>
     (case req_body ev of
        Unparsable \<Rightarrow> (Inl (JsError ''SyntaxError''), w)
      | Parsed b \<Rightarrow>
     (case truthy_string (b_stripe_secret_key b) of
        None \<Rightarrow> (Inr (error ''stripe_secret_key is required'' 400), w)
      | Some sk \<Rightarrow>
     (case truthy_string (b_stripe_publishable_key b) of
        None \<Rightarrow> (Inr (error ''stripe_publishable_key is required'' 400), w)
      | Some pk \<Rightarrow>
     (if \<not> startsWith sk ''sk_'' then
        (Inr (error ''stripe_secret_key must start with sk_'' 400), w)
      else if \<not> startsWith pk ''pk_'' then
        (Inr (error ''stripe_publishable_key must start with pk_'' 400), w)
      else if \<not> js_truthy (b_stripe_webhook_secret b) then set_store tid sk pk None w
      else
        (case b_stripe_webhook_secret b of
           JString whsec \<Rightarrow>
             (if \<not> startsWith whsec ''whsec_'' then
                (Inr (error ''stripe_webhook_secret must start with whsec_'' 400), w)
              else set_store tid sk pk (Some whsec) w)
         | other \<Rightarrow>
             (Inl (JsError ''stripe_webhook_secret.startsWith is not a function''), w)))))))"

definition setHandler ::
  "CredentialsBody parsed APIGatewayProxyEvent \<Rightarrow> world \<Rightarrow> APIGatewayProxyResult \<times> world" where
  "setHandler ev w =
     (case set_try ev w of
        (Inr r, w1) \<Rightarrow> (r, w1)
      | (Inl err, w1) \<Rightarrow> (error ''Failed to store credentials'' 500, w1))"

definition delete_try ::
  "'b APIGatewayProxyEvent \<Rightarrow> world \<Rightarrow> (error + APIGatewayProxyResult) \<times> world" where
  "delete_try ev w =
     (case credentials_guard ev w of
        Inl e \<Rightarrow> (Inl e, w)
      | Inr (Inl r) \<Rightarrow> (Inr r, w)
      | Inr (Inr tid) \<Rightarrow>
     (case deleteCredentials tid w of
        (Inl e, w1) \<Rightarrow> (Inl e, w1)
      | (Inr u, w1) \<Rightarrow>
     (let now = ISOString (now_ms w1) in
      case updateTenant tid
             \<lparr>u_stripePublishableKey = None,
              u_credentialsConfigured = Some False,
              u_credentialsValidatedAt = None,
              u_updatedAt = Some now\<rparr> w1 of
        (Inl e, w2) \<Rightarrow> (Inl e, w2)
      | (Inr t, w2) \<Rightarrow> (Inr (success (JObject [(''deleted'', JBool True)])), w2))))"

definition deleteHandler ::
  "'b APIGatewayProxyEvent \<Rightarrow> world \<Rightarrow> APIGatewayProxyResult \<times> world" where
  "deleteHandler ev w =
     (case delete_try ev w of
        (Inr r, w1) \<Rightarrow> (r, w1)
      | (Inl err, w1) \<Rightarrow> (error ''Failed to delete credentials'' 500, w1))"

section \<open>Counting effects\<close>

text \<open>
  The effects a run adds to the trace are those after the ones that were there before it.
\<close>

definition effects_between :: "world \<Rightarrow> world \<Rightarrow> effect list" where
  "effects_between w w' = drop (length (trace w)) (trace w')"

fun is_entitlement_put :: "effect \<Rightarrow> bool" where
  "is_entitlement_put (PutEntitlement row) = True"
| "is_entitlement_put e = False"

fun is_audit_put :: "effect \<Rightarrow> bool" where
  "is_audit_put (PutAudit a) = True"
| "is_audit_put e = False"


section \<open>A concrete tenant\<close>

text \<open>
  The worlds the closed theorems below are evaluated in: tenant \<open>t1\<close> with product \<open>p1\<close>,
  its secret key \<open>sk_1\<close> in Secrets Manager, and a billing account with one customer who
  holds one subscription with one line item.
\<close>

definition demo_sub :: "string \<Rightarrow> (string \<rightharpoonup> string) \<Rightarrow> (string \<rightharpoonup> string) \<Rightarrow> Subscription" where
  "demo_sub st pmeta smeta =
     \<lparr>sub_id = ''sub_1'', sub_customer = ''cus_1'', sub_status = st,
      current_period_end = 2000,
      sub_items =
        [\<lparr>item_price =
            \<lparr>price_id = ''price_1'',
             price_product =
               Expanded \<lparr>prod_id = ''prod_1'', prod_name = ''Plan'', prod_active = True,
                         prod_metadata = pmeta\<rparr>,
             price_recurring = True\<rparr>\<rparr>],
      sub_metadata = smeta\<rparr>"

definition demo_customer :: Customer where
  "demo_customer = \<lparr>cust_id = ''cus_1'', cust_email = Some ''u1@example.com''\<rparr>"

definition demo_account :: "Subscription \<Rightarrow> stripe_account" where
  "demo_account sb =
     \<lparr>customers_list = (\<lambda>email. Inr [demo_customer]),
      customers_retrieve = (\<lambda>cid. Inr demo_customer),
      subscriptions_list = (\<lambda>cid st. if st = sub_status sb then Inr [sb] else Inr []),
      subscriptions_retrieve = (\<lambda>sid. Inr sb),
      subscriptions_create = (\<lambda>params. Inr sb),
      prices_retrieve =
        (\<lambda>prid. case sub_items sb of
                   [] \<Rightarrow> Inl (StripeError ''No such price'')
                 | item # items \<Rightarrow> Inr (item_price item)),
      products_list = Inr ()\<rparr>"

text \<open>An account that rejects every request, as the provider does during an outage.\<close>

definition down_account :: stripe_account where
  "down_account =
     \<lparr>customers_list = (\<lambda>email. Inl (StripeError ''Service unavailable'')),
      customers_retrieve = (\<lambda>cid. Inl (StripeError ''Service unavailable'')),
      subscriptions_list = (\<lambda>cid st. Inl (StripeError ''Service unavailable'')),
      subscriptions_retrieve = (\<lambda>sid. Inl (StripeError ''Service unavailable'')),
      subscriptions_create = (\<lambda>params. Inl (StripeError ''Service unavailable'')),
      prices_retrieve = (\<lambda>prid. Inl (StripeError ''Service unavailable'')),
      products_list = Inl (StripeError ''Service unavailable'')\<rparr>"

definition demo_event :: "string \<Rightarrow> StripeEvent" where
  "demo_event b =
     \<lparr>event_id = ''evt_1'',
      event_data =
        (if b = ''past_due'' then SubscriptionUpdated (demo_sub ''past_due'' Map.empty [''paywall_product'' \<mapsto> ''p1''])
         else if b = ''deleted'' then SubscriptionDeleted (demo_sub ''canceled'' Map.empty [''paywall_product'' \<mapsto> ''p1''])
         else if b = ''payment_failed'' then InvoicePaymentFailed (Some ''sub_1'')
         else SubscriptionCreated (demo_sub ''active'' Map.empty [''paywall_product'' \<mapsto> ''p1'']))\<rparr>"

definition demo_world :: "stripe_account \<Rightarrow> world" where
  "demo_world acct =
     \<lparr>now_ms = 1000000,
      tenants =
        [''t1'' \<mapsto>
           \<lparr>tenantId = ''t1'', name = ''Tenant'', adminEmail = ''admin@example.com'',
            stripePublishableKey = Some ''pk_1'', credentialsConfigured = True,
            credentialsValidatedAt = None, createdAt = ISOString 0, updatedAt = ISOString 0\<rparr>],
      products =
        [(''t1'', ''p1'') \<mapsto>
           \<lparr>p_tenantId = ''t1'', productId = ''p1'', productName = ''Product'',
            checkoutDomain = None, allowedReturnUrls = [''https://app.example.com/done''],
            subscriptionCallbackUrl = None\<rparr>],
      api_keys =
        [''hash_admin'' \<mapsto>
           \<lparr>apiKeyHash = ''hash_admin'', k_tenantId = ''t1'', k_productId = ''*'',
            k_keyType = AdminKey\<rparr>],
      entitlement_cache = Map.empty,
      webhook_audit = Map.empty,
      secrets =
        [''paywall/stripe/t1'' \<mapsto>
           \<lparr>stripe_secret_key = ''sk_1'', stripe_webhook_secret = Some ''whsec_1''\<rparr>],
      clientCache = Map.empty,
      stripe_api = (\<lambda>k. if k = ''sk_1'' \<or> k = ''sk_2'' then acct else down_account),
      constructEvent =
        (\<lambda>b sig secret t.
           if sig = ''valid'' \<and> secret = ''whsec_1'' then Inr (demo_event b)
           else Inl (StripeError ''No signatures found matching the expected signature'')),
      sha256_hex = (\<lambda>k. if k = ''pk_paywall_1'' then ''hash_admin'' else ''hash_other''),
      aws_fault = (\<lambda>op. None),
      trace = []\<rparr>"

text \<open>The same world with one row in the entitlement table.\<close>

definition with_row :: "EntitlementCache \<Rightarrow> world \<Rightarrow> world" where
  "with_row row w =
     w\<lparr>entitlement_cache := (entitlement_cache w)((tenantProductKey row, userId row) \<mapsto> row)\<rparr>"

definition demo_webhook :: "string \<Rightarrow> string option APIGatewayProxyEvent" where
  "demo_webhook b =
     \<lparr>pathParameters = [''tenantId'' \<mapsto> ''t1''],
      req_headers = [''stripe-signature'' \<mapsto> ''valid''],
      req_body = Some b\<rparr>"

definition demo_finalize :: FinalizeBody where
  "demo_finalize =
     \<lparr>tenant_id = Some ''t1'', customer_id = Some ''cus_1'', price_id_field = Some ''price_1'',
      payment_method = None, product_id = Some ''p1'', user_id = Some ''u1'',
      return_url = None\<rparr>"

definition demo_credentials :: "CredentialsBody parsed APIGatewayProxyEvent" where
  "demo_credentials =
     \<lparr>pathParameters = [''tenantId'' \<mapsto> ''t1''],
      req_headers = [''x-api-key'' \<mapsto> ''pk_paywall_1''],
      req_body =
        Parsed \<lparr>b_stripe_secret_key = JString ''sk_2'',
                b_stripe_publishable_key = JString ''pk_2'',
                b_stripe_webhook_secret = JUndefined\<rparr>\<rparr>"

text \<open>A row that grants access and stores none of the optional subscription fields.\<close>

definition bare_row :: EntitlementCache where
  "bare_row =
     \<lparr>hasAccess = True, subscriptionId = Some ''sub_1'', planCode = None, status = None,
      currentPeriodEnd = None, tenantProductKey = ''t1#p1'', userId = ''u1'', userEmail = None,
      ttl = 2000\<rparr>"

text \<open>A world in which one kind of AWS request throws.\<close>

definition with_fault :: "aws_op \<Rightarrow> string \<Rightarrow> world \<Rightarrow> world" where
  "with_fault op m w = w\<lparr>aws_fault := (aws_fault w)(op := Some m)\<rparr>"





text \<open>A tenant whose customer's subscription is past due.\<close>

definition past_due_world :: world where
  "past_due_world =
     demo_world (demo_account (demo_sub ''past_due'' Map.empty [''paywall_product'' \<mapsto> ''p1'']))"

text \<open>
  A tenant whose client, constructed with the key \<open>sk_1\<close>, is in the client cache for
  another 200 seconds.
\<close>

definition rotated_world :: world where
  "rotated_world =
     (demo_world (demo_account (demo_sub ''active'' Map.empty Map.empty)))
       \<lparr>clientCache := [''t1'' \<mapsto> \<lparr>client = Stripe ''sk_1'', expiry = 1200000\<rparr>]\<rparr>"

text \<open>A tenant whose customer is about to pay for the plan \<open>pro\<close>.\<close>

definition paid_world :: world where
  "paid_world =
     demo_world (demo_account (demo_sub ''active'' [''plan_code'' \<mapsto> ''pro''] Map.empty))"

text \<open>The request the checkout page sends: it carries no user id.\<close>

definition checkout_finalize :: FinalizeBody where
  "checkout_finalize =
     \<lparr>tenant_id = Some ''t1'', customer_id = Some ''cus_1'', price_id_field = Some ''price_1'',
      payment_method = Some ''pm_1'', product_id = Some ''p1'', user_id = None,
      return_url = Some ''https://app.example.com/done''\<rparr>"






section \<open>Unfolding the model\<close>

lemmas demo_defs =
  demo_world_def demo_account_def demo_sub_def demo_customer_def down_account_def demo_event_def
  with_row_def demo_webhook_def demo_finalize_def demo_credentials_def bare_row_def
  with_fault_def

lemmas service_defs =
  getTenant_def getProduct_def getApiKeyByHash_def getEntitlementCache_def
  setEntitlementCache_def getWebhookAudit_def createWebhookAudit_def
  getStripeSecretKey_def getStripeWebhookSecret_def SECRET_PREFIX_def
  getStripeClient_def CACHE_TTL_def now_sec_def emit_def Let_def
  or_else_def or_str_def or_text_def

lemmas resolver_defs =
  checkEntitlement_def queryStripeEntitlement_def decision_of_def no_access_def
  audience_matches_def ACTIVE_TTL_def INACTIVE_TTL_def

section \<open>What each service call leaves unchanged\<close>

lemma getStripeClient_frame:
  "snd (getStripeClient tid w) = w\<lparr>clientCache := clientCache (snd (getStripeClient tid w))\<rparr>"
  by (simp add: getStripeClient_def Let_def split: option.split sum.split)

lemma getStripeClient_keeps:
  assumes "getStripeClient tid w = (res, w1)"
  shows "trace w1 = trace w" and "entitlement_cache w1 = entitlement_cache w"
    and "webhook_audit w1 = webhook_audit w" and "now_ms w1 = now_ms w"
    and "aws_fault w1 = aws_fault w" and "stripe_api w1 = stripe_api w"
    and "secrets w1 = secrets w" and "constructEvent w1 = constructEvent w"
proof -
  have "w1 = w\<lparr>clientCache := clientCache w1\<rparr>"
    using getStripeClient_frame [of tid w] assms by simp
  then obtain cc where w1: "w1 = w\<lparr>clientCache := cc\<rparr>" ..
  show "trace w1 = trace w" and "entitlement_cache w1 = entitlement_cache w"
    and "webhook_audit w1 = webhook_audit w" and "now_ms w1 = now_ms w"
    and "aws_fault w1 = aws_fault w" and "stripe_api w1 = stripe_api w"
    and "secrets w1 = secrets w" and "constructEvent w1 = constructEvent w"
    by (simp_all add: w1)
qed

lemma queryStripeEntitlement_frame:
  "snd (queryStripeEntitlement stripe email pid w) =
     w\<lparr>trace := trace (snd (queryStripeEntitlement stripe email pid w))\<rparr>"
  by (simp add: queryStripeEntitlement_def Let_def emit_def split: sum.split list.split option.split)

lemma queryStripeEntitlement_trace:
  "\<exists>es. trace (snd (queryStripeEntitlement stripe email pid w)) = trace w @ es
        \<and> filter is_entitlement_put es = [] \<and> filter is_audit_put es = []"
  by (simp add: queryStripeEntitlement_def Let_def emit_def split: sum.split list.split option.split)

lemma queryStripeEntitlement_keeps:
  assumes "queryStripeEntitlement stripe email pid w = (res, w2)"
  shows "entitlement_cache w2 = entitlement_cache w" and "now_ms w2 = now_ms w"
    and "aws_fault w2 = aws_fault w"
    and "\<exists>es. trace w2 = trace w @ es \<and> filter is_entitlement_put es = []"
proof -
  have "w2 = w\<lparr>trace := trace w2\<rparr>"
    using queryStripeEntitlement_frame [of stripe email pid w] assms by simp
  then obtain t where w2: "w2 = w\<lparr>trace := t\<rparr>" ..
  show "entitlement_cache w2 = entitlement_cache w" and "now_ms w2 = now_ms w"
    and "aws_fault w2 = aws_fault w"
    by (simp_all add: w2)
  show "\<exists>es. trace w2 = trace w @ es \<and> filter is_entitlement_put es = []"
    using queryStripeEntitlement_trace [of stripe email pid w] assms by auto
qed

lemma setEntitlementCache_trace:
  "trace (snd (setEntitlementCache row w)) = trace w @ [PutEntitlement row]"
  by (simp add: setEntitlementCache_def Let_def emit_def split: option.split)

lemma setEntitlementCache_ok:
  assumes "aws_fault w SetEntitlementCache = None"
  shows "setEntitlementCache row w =
           (Inr (), w\<lparr>trace := trace w @ [PutEntitlement row],
                      entitlement_cache :=
                        (entitlement_cache w)((tenantProductKey row, userId row) \<mapsto> row)\<rparr>)"
  using assms by (simp add: setEntitlementCache_def Let_def emit_def)

lemma setEntitlementCache_fails:
  assumes "aws_fault w SetEntitlementCache = Some m"
  shows "setEntitlementCache row w =
           (Inl (DynamoError m), w\<lparr>trace := trace w @ [PutEntitlement row]\<rparr>)"
  using assms by (simp add: setEntitlementCache_def Let_def emit_def)

lemma effects_between_append:
  "trace w' = trace w @ es \<Longrightarrow> effects_between w w' = es"
  by (simp add: effects_between_def)

section \<open>The paths of the resolver\<close>

lemma checkEntitlement_hit:
  assumes "getEntitlementCache tid pid uid w = Inr (Some row)" and "now_sec w < ttl row"
  shows "checkEntitlement tid pid uid email w = (Inr (decision_of row), w)"
  using assms by (simp add: checkEntitlement_def)

lemma checkEntitlement_client_fails:
  assumes "getEntitlementCache tid pid uid w = Inr cached"
    and "\<forall>row. cached = Some row \<longrightarrow> ttl row \<le> now_sec w"
    and "getStripeClient tid w = (Inl e, w1)"
  shows "checkEntitlement tid pid uid email w = (Inl e, w1)"
  using assms by (cases cached) (simp_all add: checkEntitlement_def)

lemma checkEntitlement_query_fails:
  assumes "getEntitlementCache tid pid uid w = Inr cached"
    and "\<forall>row. cached = Some row \<longrightarrow> ttl row \<le> now_sec w"
    and "getStripeClient tid w = (Inr stripe, w1)"
    and "queryStripeEntitlement stripe email pid w1 = (Inl e, w2)"
  shows "checkEntitlement tid pid uid email w = (Inl e, w2)"
  using assms by (cases cached) (simp_all add: checkEntitlement_def)

lemma checkEntitlement_query_returns:
  assumes "getEntitlementCache tid pid uid w = Inr cached"
    and "\<forall>row. cached = Some row \<longrightarrow> ttl row \<le> now_sec w"
    and "getStripeClient tid w = (Inr stripe, w1)"
    and "queryStripeEntitlement stripe email pid w1 = (Inr r, w2)"
  shows "checkEntitlement tid pid uid email w =
     (case setEntitlementCache
             \<lparr>hasAccess = hasAccess r, subscriptionId = subscriptionId r, planCode = planCode r,
              status = status r, currentPeriodEnd = currentPeriodEnd r,
              tenantProductKey = tid @ ''#'' @ pid, userId = uid, userEmail = Some email,
              ttl = now_sec w2 + (if hasAccess r then ACTIVE_TTL else INACTIVE_TTL)\<rparr> w2 of
        (Inl e, w3) \<Rightarrow> (Inl e, w3)
      | (Inr u, w3) \<Rightarrow> (Inr (decision_of r), w3))"
  using assms by (cases cached) (simp_all add: checkEntitlement_def Let_def)

text \<open>The three ways a resolution that misses the cache can go.\<close>

lemma checkEntitlement_miss_cases:
  assumes get: "getEntitlementCache tid pid uid w = Inr cached"
    and miss: "\<forall>row. cached = Some row \<longrightarrow> ttl row \<le> now_sec w"
  obtains
    (no_client) e w1 where
      "checkEntitlement tid pid uid email w = (Inl e, w1)" "trace w1 = trace w"
      "entitlement_cache w1 = entitlement_cache w"
  | (no_answer) e w2 es where
      "checkEntitlement tid pid uid email w = (Inl e, w2)" "trace w2 = trace w @ es"
      "filter is_entitlement_put es = []" "entitlement_cache w2 = entitlement_cache w"
  | (written) res w3 es row where
      "checkEntitlement tid pid uid email w = (res, w3)"
      "trace w3 = trace w @ es @ [PutEntitlement row]" "filter is_entitlement_put es = []"
proof -
  obtain res1 w1 where c: "getStripeClient tid w = (res1, w1)"
    by (cases "getStripeClient tid w")
  note k1 = getStripeClient_keeps [OF c]
  show thesis
  proof (cases res1)
    case (Inl e)
    with c have "checkEntitlement tid pid uid email w = (Inl e, w1)"
      using checkEntitlement_client_fails [OF get miss] by simp
    then show thesis using k1 by (intro no_client [of e w1])
  next
    case (Inr stripe)
    obtain res2 w2 where q: "queryStripeEntitlement stripe email pid w1 = (res2, w2)"
      by (cases "queryStripeEntitlement stripe email pid w1")
    note k2 = queryStripeEntitlement_keeps [OF q]
    from k2(4) k1(1) obtain es where es: "trace w2 = trace w @ es" "filter is_entitlement_put es = []"
      by auto
    show thesis
    proof (cases res2)
      case (Inl e)
      with c q Inr have "checkEntitlement tid pid uid email w = (Inl e, w2)"
        using checkEntitlement_query_fails [OF get miss] by simp
      then show thesis using es k1 k2 by (intro no_answer [of e w2 es]) simp_all
    next
      case r: (Inr r)
      let ?row = "\<lparr>hasAccess = hasAccess r, subscriptionId = subscriptionId r, planCode = planCode r,
              status = status r, currentPeriodEnd = currentPeriodEnd r,
              tenantProductKey = tid @ ''#'' @ pid, userId = uid, userEmail = Some email,
              ttl = now_sec w2 + (if hasAccess r then ACTIVE_TTL else INACTIVE_TTL)\<rparr>"
      obtain res3 w3 where s: "setEntitlementCache ?row w2 = (res3, w3)"
        by (cases "setEntitlementCache ?row w2")
      have t3: "trace w3 = trace w @ es @ [PutEntitlement ?row]"
        using setEntitlementCache_trace [of ?row w2] s es by simp
      have "checkEntitlement tid pid uid email w =
              (case res3 of Inl e \<Rightarrow> Inl e | Inr u \<Rightarrow> Inr (decision_of r), w3)"
        using checkEntitlement_query_returns [OF get miss, of stripe w1 email r w2] c q Inr r s
        by (simp split: sum.split)
      then show thesis using t3 es by (intro written [of _ w3 es ?row])
    qed
  qed
qed

section \<open>Audience matching\<close>

text \<open>
  C1. The billing query is said to treat a plan's audience as a comma-separated list, as the
  plans handler does. It compares the whole audience text with the product id instead: for
  a customer with an active subscription to a plan whose audience is \<open>a,b\<close>, a check
  for product \<open>a\<close> that reaches the billing query is answered with no access, while the
  plans handler lists that very plan for product \<open>a\<close>.
\<close>

theorem comma_audience_denied_by_resolver:
  "fst (checkEntitlement ''t1'' ''a'' ''u1'' ''u1@example.com''
          (demo_world (demo_account (demo_sub ''active'' [''audience'' \<mapsto> ''a,b''] Map.empty))))
     = Inr \<lparr>d_hasAccess = False, d_subscription = None\<rparr>
   \<and> plans_filter ''a''
         \<lparr>price_id = ''price_1'',
          price_product =
            Expanded \<lparr>prod_id = ''prod_1'', prod_name = ''Plan'', prod_active = True,
                      prod_metadata = [''audience'' \<mapsto> ''a,b'']\<rparr>,
          price_recurring = True\<rparr>"
  by (simp add: resolver_defs service_defs demo_defs plans_filter_def trim_def is_space_def)

section \<open>The fast path\<close>

text \<open>
  C2, as amended. For every stored row whose \<open>ttl\<close> is strictly in the future at read time,
  \<open>checkEntitlement\<close> returns the stored \<open>hasAccess\<close>; when it is true it returns the
  stored status, plan code and period end, with \<open>active\<close>, the empty string and the empty
  string in place of a value that is missing or empty, and when it is false it returns no
  subscription; the world is left as it was, so no request goes to the billing provider
  and no put to the table. On a miss or an expired row at most one put is sent, and exactly
  one whenever the check returns a decision.
\<close>

theorem fresh_row_is_served_from_the_store:
  assumes get: "getEntitlementCache tid pid uid w = Inr cached"
  shows "(\<forall>row. cached = Some row \<and> now_sec w < ttl row \<longrightarrow>
            checkEntitlement tid pid uid email w =
              (Inr \<lparr>d_hasAccess = hasAccess row,
                    d_subscription =
                      (if hasAccess row then
                         Some \<lparr>info_status = or_str (status row) ''active'',
                               info_planCode = or_str (planCode row) [],
                               info_currentPeriodEnd = or_text (currentPeriodEnd row) (Str [])\<rparr>
                       else None)\<rparr>, w))
       \<and> ((\<forall>row. cached = Some row \<longrightarrow> ttl row \<le> now_sec w) \<longrightarrow>
            length (filter is_entitlement_put
                      (effects_between w (snd (checkEntitlement tid pid uid email w)))) \<le> 1
            \<and> (\<forall>d. fst (checkEntitlement tid pid uid email w) = Inr d \<longrightarrow>
                  length (filter is_entitlement_put
                            (effects_between w (snd (checkEntitlement tid pid uid email w)))) = 1))"
proof (intro conjI allI impI)
  fix row
  assume "cached = Some row \<and> now_sec w < ttl row"
  then show "checkEntitlement tid pid uid email w =
              (Inr \<lparr>d_hasAccess = hasAccess row,
                    d_subscription =
                      (if hasAccess row then
                         Some \<lparr>info_status = or_str (status row) ''active'',
                               info_planCode = or_str (planCode row) [],
                               info_currentPeriodEnd = or_text (currentPeriodEnd row) (Str [])\<rparr>
                       else None)\<rparr>, w)"
    using checkEntitlement_hit [of tid pid uid w row email] get by (simp add: decision_of_def)
next
  assume miss: "\<forall>row. cached = Some row \<longrightarrow> ttl row \<le> now_sec w"
  show "length (filter is_entitlement_put
                  (effects_between w (snd (checkEntitlement tid pid uid email w)))) \<le> 1"
    by (rule checkEntitlement_miss_cases [OF get miss, of email])
       (simp_all add: effects_between_def)
next
  fix d
  assume miss: "\<forall>row. cached = Some row \<longrightarrow> ttl row \<le> now_sec w"
    and d: "fst (checkEntitlement tid pid uid email w) = Inr d"
  show "length (filter is_entitlement_put
                  (effects_between w (snd (checkEntitlement tid pid uid email w)))) = 1"
    using d
    by (rule_tac checkEntitlement_miss_cases [OF get miss, of email])
       (simp_all add: effects_between_def)
qed

text \<open>
  The theorem at a fresh row, and at an empty table with a customer who holds an active
  subscription.
\<close>

theorem fresh_row_is_served_from_the_store_witness:
  "getEntitlementCache ''t1'' ''p1'' ''u1'' (with_row bare_row (demo_world down_account))
     = Inr (Some bare_row)
   \<and> now_sec (with_row bare_row (demo_world down_account)) < ttl bare_row
   \<and> checkEntitlement ''t1'' ''p1'' ''u1'' ''u1@example.com''
        (with_row bare_row (demo_world down_account))
     = (Inr \<lparr>d_hasAccess = True,
             d_subscription =
               Some \<lparr>info_status = ''active'', info_planCode = [],
                     info_currentPeriodEnd = Str []\<rparr>\<rparr>,
        with_row bare_row (demo_world down_account))
   \<and> getEntitlementCache ''t1'' ''p1'' ''u1''
        (demo_world (demo_account (demo_sub ''active'' [''audience'' \<mapsto> ''p1''] Map.empty)))
     = Inr None
   \<and> length (filter is_entitlement_put
        (effects_between (demo_world (demo_account (demo_sub ''active'' [''audience'' \<mapsto> ''p1''] Map.empty)))
          (snd (checkEntitlement ''t1'' ''p1'' ''u1'' ''u1@example.com''
             (demo_world (demo_account (demo_sub ''active'' [''audience'' \<mapsto> ''p1''] Map.empty))))))) = 1"
  using fresh_row_is_served_from_the_store
          [of "''t1''" "''p1''" "''u1''" "with_row bare_row (demo_world down_account)"
              "Some bare_row" "''u1@example.com''"]
        fresh_row_is_served_from_the_store
          [of "''t1''" "''p1''" "''u1''"
              "demo_world (demo_account (demo_sub ''active'' [''audience'' \<mapsto> ''p1''] Map.empty))"
              None "''u1@example.com''"]
  by (simp add: resolver_defs service_defs demo_defs effects_between_def)

text \<open>
  C2 as stated fails: it says that the subscription fields come back exactly as stored, and
  that a miss is followed by exactly one write. A fresh row that grants access and stores no
  status is answered with the status \<open>active\<close>; and a miss during an outage of the
  provider is followed by no write.
\<close>

theorem stored_fields_not_returned_verbatim:
  "getEntitlementCache ''t1'' ''p1'' ''u1'' (with_row bare_row (demo_world down_account))
     = Inr (Some bare_row)
   \<and> now_sec (with_row bare_row (demo_world down_account)) < ttl bare_row
   \<and> status bare_row = None
   \<and> fst (checkEntitlement ''t1'' ''p1'' ''u1'' ''u1@example.com''
        (with_row bare_row (demo_world down_account)))
     = Inr \<lparr>d_hasAccess = True,
            d_subscription =
              Some \<lparr>info_status = ''active'', info_planCode = [],
                    info_currentPeriodEnd = Str []\<rparr>\<rparr>
   \<and> getEntitlementCache ''t1'' ''p1'' ''u1'' (demo_world down_account) = Inr None
   \<and> filter is_entitlement_put
        (effects_between (demo_world down_account)
           (snd (checkEntitlement ''t1'' ''p1'' ''u1'' ''u1@example.com''
                   (demo_world down_account))))
     = []"
  by (simp add: resolver_defs service_defs demo_defs effects_between_def)

section \<open>The slow path\<close>

text \<open>
  C4. When the row is missing or expired and the billing query throws, \<open>checkEntitlement\<close>
  throws the same error, the entitlement table is what it was, and no put has been sent to
  it: the failure is neither returned nor cached as a decision.
\<close>

theorem provider_failure_propagates:
  assumes get: "getEntitlementCache tid pid uid w = Inr cached"
    and miss: "\<forall>row. cached = Some row \<longrightarrow> ttl row \<le> now_sec w"
    and client: "getStripeClient tid w = (Inr stripe, w1)"
    and query: "queryStripeEntitlement stripe email pid w1 = (Inl e, w2)"
  shows "fst (checkEntitlement tid pid uid email w) = Inl e
       \<and> entitlement_cache (snd (checkEntitlement tid pid uid email w)) = entitlement_cache w
       \<and> filter is_entitlement_put
            (effects_between w (snd (checkEntitlement tid pid uid email w))) = []"
proof -
  have run: "checkEntitlement tid pid uid email w = (Inl e, w2)"
    by (rule checkEntitlement_query_fails [OF get miss client query])
  have "entitlement_cache w2 = entitlement_cache w"
    using queryStripeEntitlement_keeps(1) [OF query] getStripeClient_keeps(2) [OF client]
    by simp
  moreover obtain es where "trace w2 = trace w @ es" "filter is_entitlement_put es = []"
    using queryStripeEntitlement_keeps(4) [OF query] getStripeClient_keeps(1) [OF client]
    by auto
  ultimately show ?thesis
    by (simp add: run effects_between_def)
qed

text \<open>
  The theorem during an outage of the provider, on an empty table.
\<close>

theorem provider_failure_propagates_witness:
  "getEntitlementCache ''t1'' ''p1'' ''u1'' (demo_world down_account) = Inr None
   \<and> fst (getStripeClient ''t1'' (demo_world down_account)) = Inr (Stripe ''sk_1'')
   \<and> fst (queryStripeEntitlement (Stripe ''sk_1'') ''u1@example.com'' ''p1''
            (snd (getStripeClient ''t1'' (demo_world down_account))))
       = Inl (StripeError ''Service unavailable'')
   \<and> fst (checkEntitlement ''t1'' ''p1'' ''u1'' ''u1@example.com'' (demo_world down_account))
       = Inl (StripeError ''Service unavailable'')
   \<and> entitlement_cache
        (snd (checkEntitlement ''t1'' ''p1'' ''u1'' ''u1@example.com'' (demo_world down_account)))
       = Map.empty"
proof -
  let ?w = "demo_world down_account"
  have get: "getEntitlementCache ''t1'' ''p1'' ''u1'' ?w = Inr None"
    by (simp add: service_defs demo_defs)
  have miss: "\<forall>row. None = Some row \<longrightarrow> ttl row \<le> now_sec ?w"
    by simp
  have client: "fst (getStripeClient ''t1'' ?w) = Inr (Stripe ''sk_1'')"
    by (simp add: service_defs demo_defs)
  have query: "fst (queryStripeEntitlement (Stripe ''sk_1'') ''u1@example.com'' ''p1''
                      (snd (getStripeClient ''t1'' ?w)))
               = Inl (StripeError ''Service unavailable'')"
    by (simp add: queryStripeEntitlement_def service_defs demo_defs)
  have cache: "entitlement_cache ?w = Map.empty"
    by (simp add: demo_defs)
  show ?thesis
    using provider_failure_propagates
            [OF get miss, of "Stripe ''sk_1''" "snd (getStripeClient ''t1'' ?w)"
               "''u1@example.com''" "StripeError ''Service unavailable''"
               "snd (queryStripeEntitlement (Stripe ''sk_1'') ''u1@example.com'' ''p1''
                      (snd (getStripeClient ''t1'' ?w)))"]
          get client query cache
    by (simp add: prod_eq_iff)
qed

text \<open>
  C5. When the row is missing or expired and the billing query returns, exactly one put is
  sent; the row it carries has the computed \<open>hasAccess\<close> and expires 5 minutes after the
  current second when access is granted and 1 minute after it when access is denied. It is
  the row the table holds afterwards, unless the put fails.
\<close>

theorem miss_row_expires_after_its_window:
  assumes get: "getEntitlementCache tid pid uid w = Inr cached"
    and miss: "\<forall>row. cached = Some row \<longrightarrow> ttl row \<le> now_sec w"
    and client: "getStripeClient tid w = (Inr stripe, w1)"
    and query: "queryStripeEntitlement stripe email pid w1 = (Inr r, w2)"
  shows "\<exists>row. filter is_entitlement_put
                 (effects_between w (snd (checkEntitlement tid pid uid email w)))
               = [PutEntitlement row]
             \<and> tenantProductKey row = tid @ ''#'' @ pid \<and> userId row = uid
             \<and> hasAccess row = hasAccess r
             \<and> ttl row = now_sec w + (if hasAccess r then 5 * 60 else 60)
             \<and> (aws_fault w SetEntitlementCache = None \<longrightarrow>
                  entitlement_cache (snd (checkEntitlement tid pid uid email w))
                    (tid @ ''#'' @ pid, uid) = Some row)"
proof -
  let ?row = "\<lparr>hasAccess = hasAccess r, subscriptionId = subscriptionId r, planCode = planCode r,
              status = status r, currentPeriodEnd = currentPeriodEnd r,
              tenantProductKey = tid @ ''#'' @ pid, userId = uid, userEmail = Some email,
              ttl = now_sec w2 + (if hasAccess r then ACTIVE_TTL else INACTIVE_TTL)\<rparr>"
  have run: "checkEntitlement tid pid uid email w =
               (case setEntitlementCache ?row w2 of
                  (Inl e, w3) \<Rightarrow> (Inl e, w3)
                | (Inr u, w3) \<Rightarrow> (Inr (decision_of r), w3))"
    by (rule checkEntitlement_query_returns [OF get miss client query])
  have world: "snd (checkEntitlement tid pid uid email w) = snd (setEntitlementCache ?row w2)"
    by (simp add: run split: prod.split sum.split)
  have now: "now_sec w2 = now_sec w"
    using queryStripeEntitlement_keeps(2) [OF query] getStripeClient_keeps(4) [OF client]
    by (simp add: now_sec_def)
  have fault: "aws_fault w2 = aws_fault w"
    using queryStripeEntitlement_keeps(3) [OF query] getStripeClient_keeps(5) [OF client]
    by simp
  obtain es where es: "trace w2 = trace w @ es" "filter is_entitlement_put es = []"
    using queryStripeEntitlement_keeps(4) [OF query] getStripeClient_keeps(1) [OF client]
    by auto
  have puts: "filter is_entitlement_put
                (effects_between w (snd (checkEntitlement tid pid uid email w)))
              = [PutEntitlement ?row]"
    using es by (simp add: world setEntitlementCache_trace effects_between_def)
  have stored: "aws_fault w SetEntitlementCache = None \<longrightarrow>
          entitlement_cache (snd (checkEntitlement tid pid uid email w)) (tid @ ''#'' @ pid, uid)
            = Some ?row"
    by (simp add: world fault setEntitlementCache_ok)
  have window: "ttl ?row = now_sec w + (if hasAccess r then 5 * 60 else 60)"
    by (simp add: now ACTIVE_TTL_def INACTIVE_TTL_def)
  show ?thesis
    by (rule exI [of _ ?row]) (use puts stored window in simp)
qed

text \<open>
  The theorem at second 1000 for a subscription that matches product \<open>p1\<close> and for one
  that does not.
\<close>

theorem miss_row_expires_after_its_window_witness:
  "getEntitlementCache ''t1'' ''p1'' ''u1''
     (demo_world (demo_account (demo_sub ''active'' [''audience'' \<mapsto> ''p1''] Map.empty)))
     = Inr None
   \<and> fst (getStripeClient ''t1''
            (demo_world (demo_account (demo_sub ''active'' [''audience'' \<mapsto> ''p1''] Map.empty))))
       = Inr (Stripe ''sk_1'')
   \<and> map_option hasAccess
        (entitlement_cache
           (snd (checkEntitlement ''t1'' ''p1'' ''u1'' ''u1@example.com''
              (demo_world (demo_account (demo_sub ''active'' [''audience'' \<mapsto> ''p1''] Map.empty)))))
           (''t1#p1'', ''u1'')) = Some True
   \<and> map_option ttl
        (entitlement_cache
           (snd (checkEntitlement ''t1'' ''p1'' ''u1'' ''u1@example.com''
              (demo_world (demo_account (demo_sub ''active'' [''audience'' \<mapsto> ''p1''] Map.empty)))))
           (''t1#p1'', ''u1'')) = Some (1000 + 300)
   \<and> map_option hasAccess
        (entitlement_cache
           (snd (checkEntitlement ''t1'' ''p1'' ''u1'' ''u1@example.com''
              (demo_world (demo_account (demo_sub ''active'' [''audience'' \<mapsto> ''other''] Map.empty)))))
           (''t1#p1'', ''u1'')) = Some False
   \<and> map_option ttl
        (entitlement_cache
           (snd (checkEntitlement ''t1'' ''p1'' ''u1'' ''u1@example.com''
              (demo_world (demo_account (demo_sub ''active'' [''audience'' \<mapsto> ''other''] Map.empty)))))
           (''t1#p1'', ''u1'')) = Some (1000 + 60)"
proof -
  let ?yes = "demo_world (demo_account (demo_sub ''active'' [''audience'' \<mapsto> ''p1''] Map.empty))"
  let ?no = "demo_world (demo_account (demo_sub ''active'' [''audience'' \<mapsto> ''other''] Map.empty))"
  have get: "getEntitlementCache ''t1'' ''p1'' ''u1'' ?yes = Inr None"
            "getEntitlementCache ''t1'' ''p1'' ''u1'' ?no = Inr None"
    by (simp_all add: service_defs demo_defs)
  have miss: "\<forall>row. None = Some row \<longrightarrow> ttl row \<le> now_sec ?yes"
             "\<forall>row. None = Some row \<longrightarrow> ttl row \<le> now_sec ?no"
    by simp_all
  have client: "fst (getStripeClient ''t1'' ?yes) = Inr (Stripe ''sk_1'')"
               "fst (getStripeClient ''t1'' ?no) = Inr (Stripe ''sk_1'')"
    by (simp_all add: service_defs demo_defs)
  have query: "hasAccess (projr (fst (queryStripeEntitlement (Stripe ''sk_1'') ''u1@example.com'' ''p1''
                      (snd (getStripeClient ''t1'' ?yes)))))"
      "isl (fst (queryStripeEntitlement (Stripe ''sk_1'') ''u1@example.com'' ''p1''
                      (snd (getStripeClient ''t1'' ?yes)))) = False"
      "\<not> hasAccess (projr (fst (queryStripeEntitlement (Stripe ''sk_1'') ''u1@example.com'' ''p1''
                      (snd (getStripeClient ''t1'' ?no)))))"
      "isl (fst (queryStripeEntitlement (Stripe ''sk_1'') ''u1@example.com'' ''p1''
                      (snd (getStripeClient ''t1'' ?no)))) = False"
    by (simp_all add: resolver_defs service_defs demo_defs)
  have now: "now_sec ?yes = 1000" "now_sec ?no = 1000"
    and up: "aws_fault ?yes SetEntitlementCache = None" "aws_fault ?no SetEntitlementCache = None"
    by (simp_all add: service_defs demo_defs)
  show ?thesis
    using miss_row_expires_after_its_window
            [OF get(1) miss(1), of "Stripe ''sk_1''" "snd (getStripeClient ''t1'' ?yes)"
               "''u1@example.com''"
               "projr (fst (queryStripeEntitlement (Stripe ''sk_1'') ''u1@example.com'' ''p1''
                      (snd (getStripeClient ''t1'' ?yes))))"
               "snd (queryStripeEntitlement (Stripe ''sk_1'') ''u1@example.com'' ''p1''
                      (snd (getStripeClient ''t1'' ?yes)))"]
          miss_row_expires_after_its_window
            [OF get(2) miss(2), of "Stripe ''sk_1''" "snd (getStripeClient ''t1'' ?no)"
               "''u1@example.com''"
               "projr (fst (queryStripeEntitlement (Stripe ''sk_1'') ''u1@example.com'' ''p1''
                      (snd (getStripeClient ''t1'' ?no))))"
               "snd (queryStripeEntitlement (Stripe ''sk_1'') ''u1@example.com'' ''p1''
                      (snd (getStripeClient ''t1'' ?no)))"]
          get client query now up
    by (auto simp add: prod_eq_iff sum.expand)
qed

text \<open>
  C7, as amended. When the billing query has returned a decision and the put of the row
  fails, \<open>checkEntitlement\<close> throws the error of the put; the decision is not returned and
  the table is what it was.
\<close>

theorem write_back_failure_propagates:
  assumes get: "getEntitlementCache tid pid uid w = Inr cached"
    and miss: "\<forall>row. cached = Some row \<longrightarrow> ttl row \<le> now_sec w"
    and client: "getStripeClient tid w = (Inr stripe, w1)"
    and query: "queryStripeEntitlement stripe email pid w1 = (Inr r, w2)"
    and fault: "aws_fault w SetEntitlementCache = Some m"
  shows "fst (checkEntitlement tid pid uid email w) = Inl (DynamoError m)
       \<and> entitlement_cache (snd (checkEntitlement tid pid uid email w)) = entitlement_cache w"
proof -
  have fault2: "aws_fault w2 SetEntitlementCache = Some m"
    using queryStripeEntitlement_keeps(3) [OF query] getStripeClient_keeps(5) [OF client] fault
    by simp
  have cache2: "entitlement_cache w2 = entitlement_cache w"
    using queryStripeEntitlement_keeps(1) [OF query] getStripeClient_keeps(2) [OF client]
    by simp
  show ?thesis
    using checkEntitlement_query_returns [OF get miss client query] cache2
    by (simp add: setEntitlementCache_fails [OF fault2])
qed

text \<open>
  The theorem for a put that the table rejects for lack of capacity.
\<close>

theorem write_back_failure_propagates_witness:
  "getEntitlementCache ''t1'' ''p1'' ''u1''
     (with_fault SetEntitlementCache ''ProvisionedThroughputExceededException''
        (demo_world (demo_account (demo_sub ''active'' [''audience'' \<mapsto> ''p1''] Map.empty))))
     = Inr None
   \<and> aws_fault
        (with_fault SetEntitlementCache ''ProvisionedThroughputExceededException''
           (demo_world (demo_account (demo_sub ''active'' [''audience'' \<mapsto> ''p1''] Map.empty))))
        SetEntitlementCache = Some ''ProvisionedThroughputExceededException''
   \<and> fst (checkEntitlement ''t1'' ''p1'' ''u1'' ''u1@example.com''
        (with_fault SetEntitlementCache ''ProvisionedThroughputExceededException''
           (demo_world (demo_account (demo_sub ''active'' [''audience'' \<mapsto> ''p1''] Map.empty)))))
     = Inl (DynamoError ''ProvisionedThroughputExceededException'')"
proof -
  let ?w = "with_fault SetEntitlementCache ''ProvisionedThroughputExceededException''
        (demo_world (demo_account (demo_sub ''active'' [''audience'' \<mapsto> ''p1''] Map.empty)))"
  have get: "getEntitlementCache ''t1'' ''p1'' ''u1'' ?w = Inr None"
    by (simp add: service_defs demo_defs)
  have miss: "\<forall>row. None = Some row \<longrightarrow> ttl row \<le> now_sec ?w"
    by simp
  have client: "fst (getStripeClient ''t1'' ?w) = Inr (Stripe ''sk_1'')"
    by (simp add: service_defs demo_defs)
  have query: "isl (fst (queryStripeEntitlement (Stripe ''sk_1'') ''u1@example.com'' ''p1''
                      (snd (getStripeClient ''t1'' ?w)))) = False"
    by (simp add: resolver_defs service_defs demo_defs)
  have fault: "aws_fault ?w SetEntitlementCache = Some ''ProvisionedThroughputExceededException''"
    by (simp add: demo_defs)
  show ?thesis
    using write_back_failure_propagates
            [of "''t1''" "''p1''" "''u1''" ?w None "Stripe ''sk_1''"
               "snd (getStripeClient ''t1'' ?w)" "''u1@example.com''"
               "projr (fst (queryStripeEntitlement (Stripe ''sk_1'') ''u1@example.com'' ''p1''
                      (snd (getStripeClient ''t1'' ?w))))"
               "snd (queryStripeEntitlement (Stripe ''sk_1'') ''u1@example.com'' ''p1''
                      (snd (getStripeClient ''t1'' ?w)))"
               "''ProvisionedThroughputExceededException''"]
          get client query fault
    by (auto simp add: prod_eq_iff sum.expand)
qed

text \<open>
  C7 as stated fails: the billing query grants access, the put throws, and the check throws
  with it instead of returning the decision.
\<close>

theorem computed_decision_lost_when_write_fails:
  "fst (queryStripeEntitlement (Stripe ''sk_1'') ''u1@example.com'' ''p1''
          (snd (getStripeClient ''t1''
             (with_fault SetEntitlementCache ''ProvisionedThroughputExceededException''
                (demo_world (demo_account (demo_sub ''active'' [''audience'' \<mapsto> ''p1''] Map.empty)))))))
     = Inr \<lparr>hasAccess = True, subscriptionId = Some ''sub_1'', planCode = Some ''prod_1'',
            status = Some ''active'', currentPeriodEnd = Some (ISOString 2000000)\<rparr>
   \<and> fst (checkEntitlement ''t1'' ''p1'' ''u1'' ''u1@example.com''
        (with_fault SetEntitlementCache ''ProvisionedThroughputExceededException''
           (demo_world (demo_account (demo_sub ''active'' [''audience'' \<mapsto> ''p1''] Map.empty)))))
     = Inl (DynamoError ''ProvisionedThroughputExceededException'')"
  by (simp add: resolver_defs service_defs demo_defs)

section \<open>The webhook's writers\<close>

lemmas webhook_defs =
  updateEntitlementFromSubscription_def revokeEntitlementFromSubscription_def
  fetch_fullSub_def processWebhookEvent_def

lemma processWebhookEvent_frame:
  "snd (processWebhookEvent tid stripe ev w) =
     w\<lparr>entitlement_cache := entitlement_cache (snd (processWebhookEvent tid stripe ev w)),
       trace := trace (snd (processWebhookEvent tid stripe ev w))\<rparr>"
  by (simp add: webhook_defs setEntitlementCache_def emit_def Let_def
           split: event_data.split sum.split option.split prod.split)

lemma processWebhookEvent_trace:
  "\<exists>es. trace (snd (processWebhookEvent tid stripe ev w)) = trace w @ es
        \<and> length (filter is_entitlement_put es) \<le> 1 \<and> filter is_audit_put es = []"
  by (simp add: webhook_defs setEntitlementCache_def emit_def Let_def
           split: event_data.split sum.split option.split prod.split)

lemma processWebhookEvent_keeps:
  assumes "processWebhookEvent tid stripe ev w = (res, w1)"
  shows "webhook_audit w1 = webhook_audit w" and "now_ms w1 = now_ms w"
    and "aws_fault w1 = aws_fault w"
    and "\<exists>es. trace w1 = trace w @ es \<and> length (filter is_entitlement_put es) \<le> 1
               \<and> filter is_audit_put es = []"
proof -
  have "w1 = w\<lparr>entitlement_cache := entitlement_cache w1, trace := trace w1\<rparr>"
    using processWebhookEvent_frame [of tid stripe ev w] assms by simp
  then obtain c t where w1: "w1 = w\<lparr>entitlement_cache := c, trace := t\<rparr>" ..
  show "webhook_audit w1 = webhook_audit w" and "now_ms w1 = now_ms w"
    and "aws_fault w1 = aws_fault w"
    by (simp_all add: w1)
  show "\<exists>es. trace w1 = trace w @ es \<and> length (filter is_entitlement_put es) \<le> 1
               \<and> filter is_audit_put es = []"
    using processWebhookEvent_trace [of tid stripe ev w] assms by simp
qed

section \<open>The webhook handler\<close>




text \<open>An event whose audit record exists is answered as a duplicate, and nothing else is done.\<close>

lemma handle_verified_duplicate:
  assumes "aws_fault w GetWebhookAudit = None"
    and "webhook_audit w (tid @ ''#'' @ event_id stripeEvent) = Some a"
  shows "handle_verified tid stripe stripeEvent w =
           (Inr (json 200 (JObject [(''received'', JBool True), (''duplicate'', JBool True)])), w)"
  using assms by (simp add: handle_verified_def getWebhookAudit_def)

text \<open>
  An event without an audit record is processed, and the audit record is written whether or
  not the processing threw.
\<close>

lemma handle_verified_first:
  assumes get: "aws_fault w GetWebhookAudit = None"
    and none: "webhook_audit w (tid @ ''#'' @ event_id stripeEvent) = None"
    and put: "aws_fault w CreateWebhookAudit = None"
    and run: "processWebhookEvent tid stripe stripeEvent w = (outcome, w1)"
  shows "\<exists>a w2. handle_verified tid stripe stripeEvent w =
                    (Inr (json 200 (JObject [(''received'', JBool True)])), w2)
           \<and> webhook_audit w2 = (webhook_audit w)(tid @ ''#'' @ event_id stripeEvent \<mapsto> a)
           \<and> trace w2 = trace w1 @ [PutAudit a]
           \<and> entitlement_cache w2 = entitlement_cache w1
           \<and> result a = (case outcome of Inl err \<Rightarrow> ResultError | Inr u \<Rightarrow> ResultSuccess)
           \<and> errorMessage a = (case outcome of Inl err \<Rightarrow> Some (message err) | Inr u \<Rightarrow> None)"
proof -
  note k = processWebhookEvent_keeps [OF run]
  show ?thesis
    using get none put k(1) k(3)
    by (simp add: handle_verified_def getWebhookAudit_def createWebhookAudit_def run emit_def
                  Let_def)
qed

lemmas handler_defs =
  handler_def webhook_try_def webhook_verify_def handle_verified_def webhook_defs event_type_def
  AUDIT_TTL_def json_def


lemmas credentials_defs =
  setHandler_def set_try_def set_store_def deleteHandler_def delete_try_def
  credentials_guard_def requireAdminKey_def resolveApiKey_def
  validateStripeKey_def storeCredentials_def deleteCredentials_def updateTenant_def
  startsWith_def success_def error_def json_def

section \<open>The freshness window of each writer\<close>

text \<open>
  C6. Every write is said to use the 5-minute window when it grants access and the 1-minute
  window when it denies it. The resolver does (C5), and so does the writer for deleted
  subscriptions; the writer for created and updated subscriptions and for failed payments
  adds 5 minutes whatever it writes. At second 1000, an update event and a failed-payment
  event for a subscription that is past due both store a row that denies access and expires
  at second 1300.
\<close>

theorem past_due_row_gets_the_long_window:
  "entitlement_cache (snd (handler (demo_webhook ''past_due'') past_due_world))
     (''t1#p1'', ''u1@example.com'')
     = Some \<lparr>hasAccess = False, subscriptionId = Some ''sub_1'', planCode = Some ''prod_1'',
             status = Some ''past_due'', currentPeriodEnd = Some (ISOString 2000000),
             tenantProductKey = ''t1#p1'', userId = ''u1@example.com'',
             userEmail = Some ''u1@example.com'', ttl = 1000 + 5 * 60\<rparr>
   \<and> entitlement_cache (snd (handler (demo_webhook ''payment_failed'') past_due_world))
     (''t1#p1'', ''u1@example.com'')
     = Some \<lparr>hasAccess = False, subscriptionId = Some ''sub_1'', planCode = Some ''prod_1'',
             status = Some ''past_due'', currentPeriodEnd = Some (ISOString 2000000),
             tenantProductKey = ''t1#p1'', userId = ''u1@example.com'',
             userEmail = Some ''u1@example.com'', ttl = 1000 + 5 * 60\<rparr>
   \<and> now_sec past_due_world = 1000"
  by (simp add: past_due_world_def handler_defs service_defs demo_defs)

section \<open>The client cache\<close>

text \<open>
  C9. Storing or deleting a tenant's credentials is said to invalidate the tenant's cached
  client. Neither handler calls \<open>invalidateStripeClient\<close>: after the key \<open>sk_2\<close> has been
  stored (or the secret deleted) with a 200 answer, the next \<open>getStripeClient\<close> still
  returns the client constructed with \<open>sk_1\<close>; had the cache been invalidated, it would
  return one constructed with \<open>sk_2\<close>.
\<close>

theorem stale_client_survives_credential_change:
  "fst (getStripeClient ''t1'' rotated_world) = Inr (Stripe ''sk_1'')
   \<and> statusCode (fst (setHandler demo_credentials rotated_world)) = 200
   \<and> getStripeSecretKey ''t1'' (snd (setHandler demo_credentials rotated_world)) = Inr (Some ''sk_2'')
   \<and> fst (getStripeClient ''t1'' (snd (setHandler demo_credentials rotated_world)))
       = Inr (Stripe ''sk_1'')
   \<and> statusCode (fst (deleteHandler demo_credentials rotated_world)) = 200
   \<and> getStripeSecretKey ''t1'' (snd (deleteHandler demo_credentials rotated_world)) = Inr None
   \<and> fst (getStripeClient ''t1'' (snd (deleteHandler demo_credentials rotated_world)))
       = Inr (Stripe ''sk_1'')
   \<and> fst (getStripeClient ''t1''
        (invalidateStripeClient ''t1'' (snd (setHandler demo_credentials rotated_world))))
       = Inr (Stripe ''sk_2'')"
  by (simp add: rotated_world_def credentials_defs invalidateStripeClient_def service_defs demo_defs)

section \<open>The synchronous write\<close>

lemma finalizeHandler_success:
  assumes "finalizeHandler ev w = (r, w')" and "statusCode r = 200"
  shows "finalize_try ev w = (Inr r, w')"
  using assms
  by (cases "finalize_try ev w"; cases "fst (finalize_try ev w)")
     (auto simp add: finalizeHandler_def error_def json_def)

lemmas finalize_defs =
  finalizeHandler_def finalize_try_def finalize_write_def success_def error_def json_def

section \<open>What the code does where it departs from the specification\<close>

text \<open>
  The billing query grants access exactly when some line item of some listed subscription
  has a product without an audience or with an audience equal to the product id.
\<close>

lemma match_items_iff:
  "match_items pid sub items \<noteq> None \<longleftrightarrow>
     (\<exists>item \<in> set items.
        audience_matches (ref_metadata (price_product (item_price item)) ''audience'') pid)"
  by (induction items) (simp_all add: Let_def)

lemma match_subs_iff:
  "match_subs pid subs \<noteq> None \<longleftrightarrow>
     (\<exists>sub \<in> set subs. \<exists>item \<in> set (sub_items sub).
        audience_matches (ref_metadata (price_product (item_price item)) ''audience'') pid)"
proof (induction subs)
  case Nil
  then show ?case by simp
next
  case (Cons sub subs)
  show ?case
  proof (cases "match_items pid sub (sub_items sub)")
    case None
    then show ?thesis
      using Cons.IH match_items_iff [of pid sub "sub_items sub"] by simp
  next
    case (Some r)
    then show ?thesis
      using match_items_iff [of pid sub "sub_items sub"] by auto
  qed
qed

lemma audience_matches_iff:
  "audience_matches a pid \<longleftrightarrow> a = None \<or> a = Some [] \<or> a = Some pid"
  by (cases a) (auto simp add: audience_matches_def)

text \<open>Neither credentials handler touches the client cache.\<close>

lemma set_store_keeps_clientCache:
  "clientCache (snd (set_store tid sk pk whsec w)) = clientCache w"
  by (simp add: set_store_def validateStripeKey_def storeCredentials_def updateTenant_def
        getTenant_def emit_def Let_def
      split: sum.split option.split prod.split)

lemma set_try_keeps_clientCache:
  "clientCache (snd (set_try ev w)) = clientCache w"
  by (simp add: set_try_def set_store_keeps_clientCache
      split: sum.split option.split parsed.split json.split)

lemma setHandler_keeps_clientCache:
  "clientCache (snd (setHandler ev w)) = clientCache w"
  using set_try_keeps_clientCache [of ev w]
  by (cases "set_try ev w") (simp add: setHandler_def split: sum.split)

lemma deleteHandler_keeps_clientCache:
  "clientCache (snd (deleteHandler ev w)) = clientCache w"
  by (simp add: deleteHandler_def delete_try_def deleteCredentials_def updateTenant_def Let_def
      split: sum.split option.split prod.split)

text \<open>
  Whatever the writer for created and updated subscriptions puts in the table expires 5
  minutes after the current second.
\<close>

lemma updateEntitlementFromSubscription_ttl:
  "\<forall>e \<in> set (effects_between w (snd (updateEntitlementFromSubscription tid stripe subscription w))).
     \<forall>row. e = PutEntitlement row \<longrightarrow> ttl row = now_sec w + 5 * 60"
  by (simp add: updateEntitlementFromSubscription_def fetch_fullSub_def setEntitlementCache_def
        emit_def now_sec_def effects_between_def Let_def
      split: sum.split option.split prod.split)

lemma finalize_write_row:
  assumes run: "finalize_write stripe b tid cid pid product plan subscription w = (Inr r, w')"
  shows "\<exists>customer row.
           customers_retrieve (stripe_api w (key_of stripe)) cid = Inr customer
           \<and> entitlement_cache w' (tid @ ''#'' @ pid, userId row) = Some row
           \<and> userId row = or_str (user_id b) (or_str (cust_email customer) [])
           \<and> tenantProductKey row = tid @ ''#'' @ pid
           \<and> hasAccess row \<and> ttl row = now_sec w + 5 * 60
           \<and> aws_fault w' = aws_fault w"
proof -
  obtain customer where c: "customers_retrieve (stripe_api w (key_of stripe)) cid = Inr customer"
    using run by (cases "customers_retrieve (stripe_api w (key_of stripe)) cid")
                 (simp_all add: finalize_write_def Let_def)
  let ?email = "or_str (cust_email customer) []"
  let ?row = "\<lparr>hasAccess = True, subscriptionId = Some (sub_id subscription), planCode = plan,
               status = Some (sub_status subscription),
               currentPeriodEnd = Some (ISOString (current_period_end subscription * 1000)),
               tenantProductKey = tid @ ''#'' @ pid, userId = or_str (user_id b) ?email,
               userEmail = Some ?email, ttl = now_sec w + 5 * 60\<rparr>"
  have up: "aws_fault w SetEntitlementCache = None"
    using run c
    by (cases "aws_fault w SetEntitlementCache")
       (simp_all add: finalize_write_def setEntitlementCache_def emit_def Let_def now_sec_def)
  have "entitlement_cache w' (tid @ ''#'' @ pid, userId ?row) = Some ?row
        \<and> aws_fault w' = aws_fault w"
    using run c up
    by (auto simp add: finalize_write_def setEntitlementCache_def emit_def Let_def now_sec_def
             split: option.splits if_splits)
  then show ?thesis
    using c by (intro exI [of _ customer] exI [of _ ?row]) simp
qed

lemma finalize_try_reaches_write:
  assumes "finalize_try (Parsed b) w = (Inr r, w')" and "statusCode r = 200"
  shows "\<exists>tid cid pid product stripe w0 plan subscription.
           tenant_id b = Some tid \<and> customer_id b = Some cid \<and> product_id b = Some pid
           \<and> getStripeClient tid w = (Inr stripe, w0)
           \<and> finalize_write stripe b tid cid pid product plan subscription
                (emit (StripeRequest (key_of stripe) ''subscriptions.create'')
                   (emit (StripeRequest (key_of stripe) ''prices.retrieve'') w0))
              = (Inr r, w')"
  using assms
  by (auto simp add: finalize_try_def error_def json_def Let_def
           split: sum.splits option.splits if_splits prod.splits)


section \<open>The synchronous finalize guarantee\<close>

text \<open>
  C3. When a finalize call has returned 200, the entitlement table holds a row that grants
  access, under the tenant and product of the call and under the user id of the call or,
  when the call carries none, the e-mail of the customer that the billing provider returns
  for the call's customer id; the row expires 5 minutes after the call. A check with these
  identifiers at any time \<open>t\<close> before that, with the table readable, returns the decision
  built from that stored row, which grants access, and leaves the world as it was: no
  request to the billing provider and no write.
\<close>

theorem finalize_then_check_is_a_store_hit:
  assumes fin: "finalizeHandler (Parsed b) w = (r, w1)" and ok: "statusCode r = 200"
    and readable: "aws_fault w GetEntitlementCache = None"
    and soon: "t div 1000 < now_sec w + 5 * 60"
  shows "\<exists>tid cid pid stripe w0 customer row.
           tenant_id b = Some tid \<and> customer_id b = Some cid \<and> product_id b = Some pid
           \<and> getStripeClient tid w = (Inr stripe, w0)
           \<and> customers_retrieve (stripe_api w (key_of stripe)) cid = Inr customer
           \<and> entitlement_cache w1
                (tid @ ''#'' @ pid, or_str (user_id b) (or_str (cust_email customer) []))
               = Some row
           \<and> tenantProductKey row = tid @ ''#'' @ pid
           \<and> userId row = or_str (user_id b) (or_str (cust_email customer) [])
           \<and> hasAccess row \<and> ttl row = now_sec w + 5 * 60
           \<and> (\<forall>email.
                 checkEntitlement tid pid (or_str (user_id b) (or_str (cust_email customer) []))
                   email (w1\<lparr>now_ms := t\<rparr>)
                 = (Inr (decision_of row), w1\<lparr>now_ms := t\<rparr>))
           \<and> d_hasAccess (decision_of row)"
proof -
  from finalize_try_reaches_write [OF finalizeHandler_success [OF fin ok] ok]
  obtain tid cid pid product stripe w0 plan subscription where
    ids: "tenant_id b = Some tid" "customer_id b = Some cid" "product_id b = Some pid"
    and client: "getStripeClient tid w = (Inr stripe, w0)"
    and written: "finalize_write stripe b tid cid pid product plan subscription
                  (emit (StripeRequest (key_of stripe) ''subscriptions.create'')
                     (emit (StripeRequest (key_of stripe) ''prices.retrieve'') w0))
                = (Inr r, w1)"
    by blast
  let ?w3 = "emit (StripeRequest (key_of stripe) ''subscriptions.create'')
               (emit (StripeRequest (key_of stripe) ''prices.retrieve'') w0)"
  note k = getStripeClient_keeps [OF client]
  have same: "stripe_api ?w3 = stripe_api w" "now_sec ?w3 = now_sec w"
    "aws_fault ?w3 = aws_fault w"
    using k by (simp_all add: emit_def now_sec_def)
  from finalize_write_row [OF written]
  obtain customer row where
    customer: "customers_retrieve (stripe_api w (key_of stripe)) cid = Inr customer"
    and row: "entitlement_cache w1 (tid @ ''#'' @ pid, userId row) = Some row"
      "userId row = or_str (user_id b) (or_str (cust_email customer) [])"
      "tenantProductKey row = tid @ ''#'' @ pid"
      "hasAccess row" "ttl row = now_sec w + 5 * 60"
    and fault: "aws_fault w1 = aws_fault w"
    unfolding same by blast
  let ?uid = "or_str (user_id b) (or_str (cust_email customer) [])"
  let ?w = "w1\<lparr>now_ms := t\<rparr>"
  have get: "getEntitlementCache tid pid ?uid ?w = Inr (Some row)"
    using row(1,2) fault readable by (simp add: getEntitlementCache_def)
  have fresh: "now_sec ?w < ttl row"
    using soon row(5) by (simp add: now_sec_def)
  have hit: "\<forall>email. checkEntitlement tid pid ?uid email ?w = (Inr (decision_of row), ?w)"
    using checkEntitlement_hit [OF get fresh] by simp
  have grant: "d_hasAccess (decision_of row)"
    using row(4) by (simp add: decision_of_def)
  show ?thesis
    using ids client customer row hit grant
    by (intro exI [of _ tid] exI [of _ cid] exI [of _ pid] exI [of _ stripe] exI [of _ w0]
              exI [of _ customer] exI [of _ row]) simp
qed

text \<open>
  The theorem for a checkout without a user id at second 1000 and a check under the
  customer's e-mail just before second 1300.
\<close>

theorem finalize_then_check_is_a_store_hit_witness:
  "statusCode (fst (finalizeHandler (Parsed checkout_finalize) paid_world)) = 200
   \<and> aws_fault paid_world GetEntitlementCache = None
   \<and> (1299999 :: nat) div 1000 < now_sec paid_world + 5 * 60
   \<and> fst (getStripeClient ''t1'' paid_world) = Inr (Stripe ''sk_1'')
   \<and> customers_retrieve (stripe_api paid_world ''sk_1'') ''cus_1''
       = Inr \<lparr>cust_id = ''cus_1'', cust_email = Some ''u1@example.com''\<rparr>
   \<and> entitlement_cache (snd (finalizeHandler (Parsed checkout_finalize) paid_world))
        (''t1#p1'', ''u1@example.com'')
       = Some \<lparr>hasAccess = True, subscriptionId = Some ''sub_1'', planCode = Some ''pro'',
               status = Some ''active'', currentPeriodEnd = Some (ISOString 2000000),
               tenantProductKey = ''t1#p1'', userId = ''u1@example.com'',
               userEmail = Some ''u1@example.com'', ttl = 1300\<rparr>
   \<and> checkEntitlement ''t1'' ''p1'' ''u1@example.com'' ''u1@example.com''
        ((snd (finalizeHandler (Parsed checkout_finalize) paid_world))\<lparr>now_ms := 1299999\<rparr>)
     = (Inr \<lparr>d_hasAccess = True,
             d_subscription =
               Some \<lparr>info_status = ''active'', info_planCode = ''pro'',
                     info_currentPeriodEnd = ISOString 2000000\<rparr>\<rparr>,
        (snd (finalizeHandler (Parsed checkout_finalize) paid_world))\<lparr>now_ms := 1299999\<rparr>)"
proof -
  let ?fin = "finalizeHandler (Parsed checkout_finalize) paid_world"
  have ok: "statusCode (fst ?fin) = 200"
    by (simp add: paid_world_def checkout_finalize_def finalize_defs service_defs demo_defs)
  have readable: "aws_fault paid_world GetEntitlementCache = None"
    by (simp add: paid_world_def demo_defs)
  have soon: "(1299999 :: nat) div 1000 < now_sec paid_world + 5 * 60"
    by (simp add: paid_world_def now_sec_def demo_defs)
  have client: "fst (getStripeClient ''t1'' paid_world) = Inr (Stripe ''sk_1'')"
    by (simp add: paid_world_def service_defs demo_defs)
  have customer: "customers_retrieve (stripe_api paid_world ''sk_1'') ''cus_1''
       = Inr \<lparr>cust_id = ''cus_1'', cust_email = Some ''u1@example.com''\<rparr>"
    by (simp add: paid_world_def demo_defs)
  have stored: "entitlement_cache (snd ?fin) (''t1#p1'', ''u1@example.com'')
       = Some \<lparr>hasAccess = True, subscriptionId = Some ''sub_1'', planCode = Some ''pro'',
               status = Some ''active'', currentPeriodEnd = Some (ISOString 2000000),
               tenantProductKey = ''t1#p1'', userId = ''u1@example.com'',
               userEmail = Some ''u1@example.com'', ttl = 1300\<rparr>"
    by (simp add: paid_world_def checkout_finalize_def finalize_defs service_defs demo_defs)
  have ids: "tenant_id checkout_finalize = Some ''t1''" "customer_id checkout_finalize = Some ''cus_1''"
    "product_id checkout_finalize = Some ''p1''" "user_id checkout_finalize = None"
    by (simp_all add: checkout_finalize_def)
  from finalize_then_check_is_a_store_hit
         [of checkout_finalize paid_world "fst ?fin" "snd ?fin" 1299999, OF _ ok readable soon]
  obtain tid cid pid stripe w0 customer' row where
    h: "tenant_id checkout_finalize = Some tid" "customer_id checkout_finalize = Some cid"
       "product_id checkout_finalize = Some pid"
       "getStripeClient tid paid_world = (Inr stripe, w0)"
       "customers_retrieve (stripe_api paid_world (key_of stripe)) cid = Inr customer'"
       "entitlement_cache (snd ?fin)
          (tid @ ''#'' @ pid, or_str (user_id checkout_finalize) (or_str (cust_email customer') []))
        = Some row"
       "\<forall>email. checkEntitlement tid pid
                  (or_str (user_id checkout_finalize) (or_str (cust_email customer') []))
                  email ((snd ?fin)\<lparr>now_ms := 1299999\<rparr>)
                = (Inr (decision_of row), (snd ?fin)\<lparr>now_ms := 1299999\<rparr>)"
    by auto
  have who: "tid = ''t1''" "cid = ''cus_1''" "pid = ''p1''" "stripe = Stripe ''sk_1''"
    using h(1-4) ids client by simp_all
  have email: "or_str (user_id checkout_finalize) (or_str (cust_email customer') [])
                 = ''u1@example.com''"
    using h(5) customer who ids by (auto simp add: or_str_def)
  have row: "row = \<lparr>hasAccess = True, subscriptionId = Some ''sub_1'', planCode = Some ''pro'',
               status = Some ''active'', currentPeriodEnd = Some (ISOString 2000000),
               tenantProductKey = ''t1#p1'', userId = ''u1@example.com'',
               userEmail = Some ''u1@example.com'', ttl = 1300\<rparr>"
    using h(6) stored who email by simp
  have check: "checkEntitlement ''t1'' ''p1'' ''u1@example.com'' ''u1@example.com''
                 ((snd ?fin)\<lparr>now_ms := 1299999\<rparr>)
               = (Inr (decision_of row), (snd ?fin)\<lparr>now_ms := 1299999\<rparr>)"
    using h(7) who email by simp
  show ?thesis
    using ok readable soon client customer stored check
    by (simp add: row decision_of_def or_str_def or_text_def)
qed

section \<open>Idempotent webhook processing\<close>














section \<open>The second delivery of an event\<close>


section \<open>An event whose processing throws\<close>






end
